theory Spec2Isabelle
  imports
    Complex_Main
    "HOL-Library.Char_ord"
    "HOL-Library.List_Lexorder"
    "HOL-Library.Sublist"
    "HOL-Library.Multiset"
    "HOL-Library.Code_Target_Numeral"
begin

section \<open>Monzo to Monetr bridge: a shallow embedding of \<open>Monzo_Bridge.py\<close>\<close>

text \<open>
  The script polls the Monzo API for transactions and forwards them to a Monetr
  backend. Every function of the script that a verified property depends on is
  translated below under its own name. The conventions are:
  \<^item> a Python exception is a value of \<open>error\<close>; a function that can raise returns
    \<open>error + 'a\<close> with \<open>Inl\<close> for the exception;
  \<^item> the network, the keyring and the clock form the \<open>world\<close>, which every function
    that touches them takes and returns;
  \<^item> \<open>print\<close> and \<open>time.sleep\<close> have no effect on any value and are left out;
  \<^item> a Python \<open>str\<close> is a \<open>string\<close> holding its UTF-8 bytes, so that the order on
    \<open>string\<close> (bytewise, lexicographic) is Python's order on \<open>str\<close> (by code point).
\<close>

subsection \<open>Exceptions\<close>

datatype error =
    RequestException string   \<comment> \<open>\<open>requests\<close>: connection failure, timeout, ...\<close>
  | HTTPError string          \<comment> \<open>raised by \<open>Response.raise_for_status\<close>\<close>
  | JSONDecodeError           \<comment> \<open>raised by \<open>Response.json\<close> and \<open>json.loads\<close>\<close>
  | AttributeError
  | KeyError string
  | TypeError
  | ValueError
  | OverflowError
  | UnicodeDecodeError
  | BinasciiError
  | PasswordDeleteError
  | Exception string          \<comment> \<open>\<open>raise Exception(message)\<close>\<close>

text \<open>
  \<open>except requests.exceptions.RequestException\<close> catches the exceptions of the
  \<open>requests\<close> library: \<open>HTTPError\<close> and the \<open>JSONDecodeError\<close> of \<open>Response.json\<close>
  are subclasses of \<open>RequestException\<close>.
\<close>

fun is_request_exception :: "error \<Rightarrow> bool" where
  "is_request_exception (RequestException _) = True"
| "is_request_exception (HTTPError _) = True"
| "is_request_exception JSONDecodeError = True"
| "is_request_exception _ = False"

text \<open>\<open>str(e)\<close>: the message of the exceptions that carry one.\<close>

fun py_str :: "error \<Rightarrow> string" where
  "py_str (RequestException m) = m"
| "py_str (HTTPError m) = m"
| "py_str (Exception m) = m"
| "py_str (KeyError k) = [CHR 0x27] @ k @ [CHR 0x27]"
| "py_str _ = []"

subsection \<open>Data model\<close>

text \<open>
  A transaction of the Monzo API. The keys the script reads with \<open>t[...]\<close> are
  plain fields; the keys it reads with \<open>t.get(...)\<close> are optional. A merchant that is
  \<open>null\<close>, absent or an empty object is \<open>None\<close>.
\<close>

record merchant =
  m_name :: "string option"
  m_emoji :: "string option"
  m_category :: "string option"

record txn =
  tx_id :: string
  tx_amount :: int
  tx_created :: string
  tx_settled :: "bool option"
  tx_merchant :: "merchant option"
  tx_description :: "string option"

record account =
  acc_id :: string
  acc_type :: string
  acc_description :: string

text \<open>
  The value of the key \<open>transactions\<close> in a response, as far as \<open>get_transactions\<close>
  looks at it. An element of the list is a transaction (an object with the key
  \<open>created\<close>), an object without that key, or no object at all. A value that is not
  a list is empty and iterable (an empty string or object), or anything else (\<open>null\<close>,
  a number, a boolean, a non-empty string or object).
\<close>

datatype tx_entry = Entry txn | NoCreated | NotAnObject

datatype tx_value = TxList "tx_entry list" | TxEmpty | TxOther

text \<open>
  What \<open>Response.json()\<close> gives: it raises when the body is not JSON; a JSON value
  that is not an object has no \<open>get\<close>; of an object the script reads the keys below.
\<close>

record json_object =
  accounts :: "account list option"
  transactions :: "tx_value option"
  access_token :: "string option"
  refresh_token :: "string option"
  expires_in :: "int option"

datatype json_doc = NotJson | NotObject | Object json_object

record response =
  status_code :: nat
  reason :: string
  url :: string
  body_text :: string
  cookies :: "(string \<times> string) list"
  json :: json_doc

text \<open>The body of \<open>POST /api/bank_accounts/{id}/transactions\<close>, key by key.\<close>

record transaction_data =
  bankAccountId :: "string option"
  amount :: int
  name :: string
  merchantName :: string
  date :: string
  isPending :: bool
  spendingId :: "string option"
  adjustsBalance :: bool

subsection \<open>The world: network, keyring, clock\<close>

datatype request =
    LoginRequest string string string        \<comment> \<open>url, email, password\<close>
  | PostTransaction string transaction_data  \<comment> \<open>url, JSON body\<close>
  | GetAccounts string                       \<comment> \<open>access token\<close>
  | GetTransactions string string            \<comment> \<open>account id, access token\<close>
  | TokenRequest string string string        \<comment> \<open>client id, client secret, code\<close>

text \<open>
  The \<open>n\<close>-th HTTP request of a run is answered by \<open>net w n\<close>: an exception of
  \<open>requests\<close> or a response. The function is arbitrary, so a statement about every
  world is a statement about every behaviour of the two servers. \<open>sent\<close> is the log
  of the requests made so far.
\<close>

record world =
  net :: "nat \<Rightarrow> error + response"
  sent :: "request list"
  keyring :: "string \<times> string \<Rightarrow> string option"
  now :: int   \<comment> \<open>\<open>datetime.now()\<close>, in seconds since 0001-01-01T00:00:00\<close>

definition http_request :: "request \<Rightarrow> world \<Rightarrow> (error + response) \<times> world" where
  "http_request rq w = (net w (length (sent w)), w\<lparr>sent := sent w @ [rq]\<rparr>)"

subsection \<open>\<open>Response.raise_for_status\<close>\<close>

text \<open>\<open>str(n)\<close> for a natural number: its decimal digits.\<close>

fun show_nat :: "nat \<Rightarrow> string" where
  "show_nat n =
     (if n < 10 then [''0123456789'' ! n]
      else show_nat (n div 10) @ [''0123456789'' ! (n mod 10)])"

declare show_nat.simps [simp del]

text \<open>
  \<open>requests\<close> raises for the status codes 400 to 599 only, with the message
  \<open>"<status> Client Error: <reason> for url: <url>"\<close> (\<open>Server Error\<close> from 500).
\<close>

definition raise_for_status :: "response \<Rightarrow> error + unit" where
  "raise_for_status r =
     (if 400 \<le> status_code r \<and> status_code r < 500 then
        Inl (HTTPError (show_nat (status_code r) @ '' Client Error: '' @ reason r
                        @ '' for url: '' @ url r))
      else if 500 \<le> status_code r \<and> status_code r < 600 then
        Inl (HTTPError (show_nat (status_code r) @ '' Server Error: '' @ reason r
                        @ '' for url: '' @ url r))
      else Inr ())"

subsection \<open>Banking API client: \<open>get_transactions\<close>\<close>

text \<open>
  \<open>sorted(xs, key=k, reverse=True)\<close>: a stable sort in descending order of the key;
  elements with equal keys keep their order.
\<close>

definition sorted_reverse :: "('a \<Rightarrow> 'k::linorder) \<Rightarrow> 'a list \<Rightarrow> 'a list" where
  "sorted_reverse k xs = rev (sort_key k (rev xs))"

text \<open>
  The keys of the sort: \<open>x['created']\<close> is computed for every element in turn; the
  first element without the key raises \<open>KeyError\<close>, the first that is no object
  \<open>TypeError\<close>.
\<close>

fun created_entries :: "tx_entry list \<Rightarrow> error + txn list" where
  "created_entries [] = Inr []"
| "created_entries (Entry t # es) =
     (case created_entries es of Inl e \<Rightarrow> Inl e | Inr ts \<Rightarrow> Inr (t # ts))"
| "created_entries (NoCreated # es) = Inl (KeyError ''created'')"
| "created_entries (NotAnObject # es) = Inl TypeError"

text \<open>
  \<open>sorted(transactions, key=lambda x: x['created'], reverse=True)\<close> for the value of
  \<open>data.get('transactions', [])\<close>: a value that cannot be iterated, or whose elements
  cannot be indexed by \<open>'created'\<close>, raises \<open>TypeError\<close>.
\<close>

definition sorted_transactions :: "tx_value option \<Rightarrow> error + txn list" where
  "sorted_transactions v =
     (case v of
        None \<Rightarrow> Inr []
      | Some TxEmpty \<Rightarrow> Inr []
      | Some TxOther \<Rightarrow> Inl TypeError
      | Some (TxList es) \<Rightarrow>
          (case created_entries es of
             Inl e \<Rightarrow> Inl e
           | Inr ts \<Rightarrow> Inr (sorted_reverse tx_created ts)))"

text \<open>The body of the \<open>try\<close> block of \<open>get_transactions\<close>.\<close>

definition get_transactions_try ::
  "string \<Rightarrow> string \<Rightarrow> world \<Rightarrow> (error + txn list) \<times> world" where
  "get_transactions_try account_id token w =
     (case http_request (GetTransactions account_id token) w of
        (Inl e, w') \<Rightarrow> (Inl e, w')
      | (Inr resp, w') \<Rightarrow>
          (case raise_for_status resp of
             Inl e \<Rightarrow> (Inl e, w')
           | Inr _ \<Rightarrow>
               (case json resp of
                  NotJson \<Rightarrow> (Inl JSONDecodeError, w')
                | NotObject \<Rightarrow> (Inl AttributeError, w')
                | Object data \<Rightarrow> (sorted_transactions (transactions data), w'))))"

text \<open>\<open>except Exception: return []\<close>.\<close>

definition get_transactions :: "string \<Rightarrow> string \<Rightarrow> world \<Rightarrow> txn list \<times> world" where
  "get_transactions account_id token w =
     (case get_transactions_try account_id token w of
        (Inl e, w') \<Rightarrow> ([], w')
      | (Inr ts, w') \<Rightarrow> (ts, w'))"

subsection \<open>Banking API client: \<open>get_accounts\<close>\<close>

text \<open>
  \<open>return response.json().get('accounts', [])\<close>. The status of the response is
  not looked at: there is no call of \<open>raise_for_status\<close> here.
\<close>

definition get_accounts :: "string \<Rightarrow> world \<Rightarrow> (error + account list) \<times> world" where
  "get_accounts token w =
     (case http_request (GetAccounts token) w of
        (Inl e, w') \<Rightarrow> (Inl e, w')
      | (Inr resp, w') \<Rightarrow>
          (case json resp of
             NotJson \<Rightarrow> (Inl JSONDecodeError, w')
           | NotObject \<Rightarrow> (Inl AttributeError, w')
           | Object data \<Rightarrow>
               (Inr (case accounts data of None \<Rightarrow> [] | Some xs \<Rightarrow> xs), w')))"

subsection \<open>Python floats\<close>

text \<open>
  A Python \<open>float\<close> is an IEEE 754 binary64 number. A finite one is modelled by its
  value, a rational; the two zeros are not told apart (the script cannot tell them
  apart either: it compares with \<open>0\<close> and calls \<open>int\<close>). Every arithmetic operation
  rounds the exact result to the nearest binary64 number, ties to even:
  \<open>round_to_double\<close>. A result of magnitude \<open>2 ^ 1024\<close> or more is an infinity.
\<close>

fun bitlen :: "nat \<Rightarrow> nat" where
  "bitlen n = (if n = 0 then 0 else Suc (bitlen (n div 2)))"

declare bitlen.simps [simp del]

text \<open>\<open>floor_log2 r\<close> is the integer \<open>k\<close> with \<open>2 ^ k \<le> r < 2 ^ (k + 1)\<close>, for \<open>r > 0\<close>.\<close>

definition floor_log2 :: "rat \<Rightarrow> int" where
  "floor_log2 r =
     (if 1 \<le> r then int (bitlen (nat \<lfloor>r\<rfloor>)) - 1
      else - int (bitlen (nat (\<lceil>1 / r\<rceil> - 1))))"

definition round_half_even :: "rat \<Rightarrow> int" where
  "round_half_even q =
     (let f = \<lfloor>q\<rfloor>; d = q - of_int f in
      if d < 1 / 2 then f
      else if 1 / 2 < d then f + 1
      else if even f then f else f + 1)"

text \<open>
  The binary64 numbers around \<open>r\<close> are the multiples of \<open>2 ^ e\<close>, where \<open>e\<close> is 52
  below the binary exponent of \<open>r\<close> (53 significant bits), and never below \<open>- 1074\<close>
  (the subnormal numbers). \<open>scale2 x e\<close> is \<open>x * 2 ^ e\<close> for an integer \<open>e\<close>.
\<close>

definition scale2 :: "rat \<Rightarrow> int \<Rightarrow> rat" where
  "scale2 x e = (if 0 \<le> e then x * 2 ^ nat e else x / 2 ^ nat (- e))"

definition round_to_double :: "rat \<Rightarrow> rat" where
  "round_to_double r =
     (if r = 0 then 0
      else
        let e = max (floor_log2 \<bar>r\<bar>) (- 1022) - 52;
            m = round_half_even (scale2 \<bar>r\<bar> (- e))
        in sgn r * scale2 (of_int m) e)"

datatype pyfloat = Finite rat | Infinite bool   \<comment> \<open>\<open>Infinite True\<close> is \<open>-inf\<close>\<close>

definition fl :: "rat \<Rightarrow> pyfloat" where
  "fl r = (let d = round_to_double r in
           if 2 ^ 1024 \<le> \<bar>d\<bar> then Infinite (d < 0) else Finite d)"

text \<open>
  \<open>float(n)\<close> of an \<open>int\<close>, as the operators do it for a mixed operand:
  \<open>OverflowError\<close> when the integer is too large.
\<close>

definition float_of_int :: "int \<Rightarrow> error + rat" where
  "float_of_int n =
     (case fl (of_int n) of Finite d \<Rightarrow> Inr d | Infinite _ \<Rightarrow> Inl OverflowError)"

text \<open>\<open>x / y\<close> and \<open>x * y\<close> for a float \<open>x\<close> and a finite, non-zero float \<open>y\<close>.\<close>

fun float_div :: "pyfloat \<Rightarrow> rat \<Rightarrow> pyfloat" where
  "float_div (Finite a) b = fl (a / b)"
| "float_div (Infinite s) b = Infinite (if b < 0 then \<not> s else s)"

fun float_mul :: "pyfloat \<Rightarrow> rat \<Rightarrow> pyfloat" where
  "float_mul (Finite a) b = fl (a * b)"
| "float_mul (Infinite s) b = Infinite (if b < 0 then \<not> s else s)"

fun float_neg :: "pyfloat \<Rightarrow> pyfloat" where
  "float_neg (Finite a) = Finite (- a)"
| "float_neg (Infinite s) = Infinite (\<not> s)"

fun float_lt0 :: "pyfloat \<Rightarrow> bool" where
  "float_lt0 (Finite a) = (a < 0)"
| "float_lt0 (Infinite s) = s"

fun float_gt0 :: "pyfloat \<Rightarrow> bool" where
  "float_gt0 (Finite a) = (0 < a)"
| "float_gt0 (Infinite s) = (\<not> s)"

text \<open>\<open>int(x)\<close>: truncation towards zero; \<open>OverflowError\<close> for an infinity.\<close>

fun py_int :: "pyfloat \<Rightarrow> error + int" where
  "py_int (Finite r) = Inr (if 0 \<le> r then \<lfloor>r\<rfloor> else \<lceil>r\<rceil>)"
| "py_int (Infinite _) = Inl OverflowError"

subsection \<open>\<open>datetime\<close>: \<open>strptime\<close> and \<open>strftime\<close>\<close>

record datetime =
  year :: nat
  month :: nat
  day :: nat
  hour :: nat
  minute :: nat
  second :: nat
  microsecond :: nat

definition is_digit :: "char \<Rightarrow> bool" where
  "is_digit c = (CHR ''0'' \<le> c \<and> c \<le> CHR ''9'')"

definition digits_val :: "string \<Rightarrow> nat" where
  "digits_val s = foldl (\<lambda>n c. 10 * n + (of_char c - 48)) 0 s"

text \<open>The text before the first separator, and the text after it.\<close>

definition split_at :: "(char \<Rightarrow> bool) \<Rightarrow> string \<Rightarrow> (string \<times> string) option" where
  "split_at sep s =
     (case dropWhile (\<lambda>c. \<not> sep c) s of
        [] \<Rightarrow> None
      | _ # rest \<Rightarrow> Some (takeWhile (\<lambda>c. \<not> sep c) s, rest))"

text \<open>A field of one or two digits with a value from \<open>lo\<close> to \<open>hi\<close>.\<close>

definition field2 :: "nat \<Rightarrow> nat \<Rightarrow> string \<Rightarrow> nat option" where
  "field2 lo hi s =
     (if (length s = 1 \<or> length s = 2) \<and> list_all is_digit s
         \<and> lo \<le> digits_val s \<and> digits_val s \<le> hi
      then Some (digits_val s) else None)"

text \<open>\<open>%d\<close> also takes a space and a digit from 1 to 9.\<close>

definition field_day :: "string \<Rightarrow> nat option" where
  "field_day s =
     (case s of
        [a, b] \<Rightarrow> if a = CHR '' '' \<and> CHR ''1'' \<le> b \<and> b \<le> CHR ''9''
                  then Some (of_char b - 48) else field2 1 31 s
      | _ \<Rightarrow> field2 1 31 s)"

definition field_year :: "string \<Rightarrow> nat option" where
  "field_year s =
     (if length s = 4 \<and> list_all is_digit s then Some (digits_val s) else None)"

text \<open>\<open>%f\<close>: one to six digits, padded with zeros on the right.\<close>

definition field_fraction :: "string \<Rightarrow> nat option" where
  "field_fraction s =
     (if 1 \<le> length s \<and> length s \<le> 6 \<and> list_all is_digit s
      then Some (digits_val (s @ replicate (6 - length s) CHR ''0'')) else None)"

definition is_leap :: "nat \<Rightarrow> bool" where
  "is_leap y = (y mod 4 = 0 \<and> (y mod 100 \<noteq> 0 \<or> y mod 400 = 0))"

definition days_in_month :: "nat \<Rightarrow> nat \<Rightarrow> nat" where
  "days_in_month y m =
     (if m = 2 then (if is_leap y then 29 else 28)
      else if m = 4 \<or> m = 6 \<or> m = 9 \<or> m = 11 then 30 else 31)"

text \<open>
  \<open>datetime.strptime(s, '%Y-%m-%dT%H:%M:%S.%fZ')\<close>. The format is matched as a
  regular expression, ignoring case, and must cover the whole string; then the date
  must exist and the second must be below 60. Every failure is a \<open>ValueError\<close>.
  (Python's \<open>\d\<close> also matches the decimal digits of other scripts; here only the
  ASCII digits are digits.)
\<close>

definition strptime_iso :: "string \<Rightarrow> error + datetime" where
  "strptime_iso s =
     (case split_at (\<lambda>c. c = CHR ''-'') s of None \<Rightarrow> Inl ValueError
      | Some (ys, s1) \<Rightarrow>
     (case split_at (\<lambda>c. c = CHR ''-'') s1 of None \<Rightarrow> Inl ValueError
      | Some (ms, s2) \<Rightarrow>
     (case split_at (\<lambda>c. c = CHR ''T'' \<or> c = CHR ''t'') s2 of None \<Rightarrow> Inl ValueError
      | Some (ds, s3) \<Rightarrow>
     (case split_at (\<lambda>c. c = CHR '':'') s3 of None \<Rightarrow> Inl ValueError
      | Some (hs, s4) \<Rightarrow>
     (case split_at (\<lambda>c. c = CHR '':'') s4 of None \<Rightarrow> Inl ValueError
      | Some (mins, s5) \<Rightarrow>
     (case split_at (\<lambda>c. c = CHR ''.'') s5 of None \<Rightarrow> Inl ValueError
      | Some (secs, s6) \<Rightarrow>
     (case split_at (\<lambda>c. c = CHR ''Z'' \<or> c = CHR ''z'') s6 of None \<Rightarrow> Inl ValueError
      | Some (fs, s7) \<Rightarrow>
     (case (field_year ys, field2 1 12 ms, field_day ds, field2 0 23 hs,
            field2 0 59 mins, field2 0 61 secs, field_fraction fs) of
        (Some y, Some m, Some d, Some h, Some mi, Some sec, Some f) \<Rightarrow>
          if s7 = [] \<and> 1 \<le> y \<and> d \<le> days_in_month y m \<and> sec \<le> 59
          then Inr \<lparr>year = y, month = m, day = d, hour = h, minute = mi,
                    second = sec, microsecond = f\<rparr>
          else Inl ValueError
      | _ \<Rightarrow> Inl ValueError))))))))"

definition pad2 :: "nat \<Rightarrow> string" where
  "pad2 n = (if n < 10 then CHR ''0'' # show_nat n else show_nat n)"

text \<open>
  \<open>d.strftime("%Y-%m-%dT%H:%M:%S.000Z")\<close>: the directives are replaced, the rest
  of the format is copied. (\<open>%Y\<close> is printed as glibc prints it, without padding.)
\<close>

definition strftime_post :: "datetime \<Rightarrow> string" where
  "strftime_post d =
     show_nat (year d) @ ''-'' @ pad2 (month d) @ ''-'' @ pad2 (day d) @ ''T''
     @ pad2 (hour d) @ '':'' @ pad2 (minute d) @ '':'' @ pad2 (second d) @ ''.000Z''"

subsection \<open>Budgeting backend client: \<open>LocalAPIClient\<close>\<close>

record monetr_config =
  monetr_url :: string
  monetr_email :: string
  monetr_password :: string
  bank_account_id :: string

text \<open>
  \<open>auth_cookie\<close> is \<open>None\<close> until a login succeeds, then the cookie jar of the
  login response.
\<close>

record api_client =
  config :: monetr_config
  auth_cookie :: "(string \<times> string) list option"

text \<open>\<open>not self.auth_cookie\<close>: \<open>None\<close> and an empty cookie jar are both false.\<close>

definition cookie_missing :: "api_client \<Rightarrow> bool" where
  "cookie_missing c = (case auth_cookie c of None \<Rightarrow> True | Some jar \<Rightarrow> jar = [])"

text \<open>
  \<open>except requests.exceptions.RequestException as e: raise Exception(f"<pre>{str(e)}")\<close>;
  any other exception passes through.
\<close>

definition reraise :: "string \<Rightarrow> error \<Rightarrow> error" where
  "reraise pre e = (if is_request_exception e then Exception (pre @ py_str e) else e)"

definition login :: "api_client \<Rightarrow> world \<Rightarrow> (error + unit) \<times> api_client \<times> world" where
  "login c w =
     (case http_request
             (LoginRequest (monetr_url (config c) @ ''/api/authentication/login'')
                (monetr_email (config c)) (monetr_password (config c))) w of
        (Inl e, w') \<Rightarrow> (Inl (reraise ''Monetr login failed: '' e), c, w')
      | (Inr resp, w') \<Rightarrow>
          (case (if status_code resp \<noteq> 200 then raise_for_status resp else Inr ()) of
             Inl e \<Rightarrow> (Inl (reraise ''Monetr login failed: '' e), c, w')
           | Inr _ \<Rightarrow> (Inr (), c\<lparr>auth_cookie := Some (cookies resp)\<rparr>, w')))"

text \<open>
  The dictionary \<open>transaction_data\<close> of \<open>post_transaction\<close>, with the two branches
  on the sign of the amount before it. \<open>bank_id\<close> is the global
  \<open>LOCAL_BANK_ACCOUNT_ID\<close>.
\<close>

definition build_transaction_data ::
  "string option \<Rightarrow> pyfloat \<Rightarrow> string \<Rightarrow> datetime \<Rightarrow> bool \<Rightarrow> error + transaction_data" where
  "build_transaction_data bank_id amount0 nm dt is_pending =
     (let amount1 = (if float_lt0 amount0 then float_neg amount0
                     else if float_gt0 amount0 then float_neg amount0
                     else amount0)
      in case py_int (float_mul amount1 100) of
           Inl e \<Rightarrow> Inl e
         | Inr cents \<Rightarrow>
             Inr \<lparr>bankAccountId = bank_id, amount = cents, name = nm, merchantName = nm,
                  date = strftime_post dt, isPending = is_pending, spendingId = None,
                  adjustsBalance = True\<rparr>)"

definition post_transaction ::
  "string option \<Rightarrow> pyfloat \<Rightarrow> string \<Rightarrow> datetime \<Rightarrow> bool \<Rightarrow> api_client \<Rightarrow> world
     \<Rightarrow> (error + unit) \<times> api_client \<times> world" where
  "post_transaction bank_id amount0 nm dt is_pending c w =
     (case (if cookie_missing c then login c w else (Inr (), c, w)) of
        (Inl e, c1, w1) \<Rightarrow> (Inl e, c1, w1)
      | (Inr _, c1, w1) \<Rightarrow>
          (case build_transaction_data bank_id amount0 nm dt is_pending of
             Inl e \<Rightarrow> (Inl e, c1, w1)
           | Inr data \<Rightarrow>
               (case http_request
                       (PostTransaction
                          (monetr_url (config c1) @ ''/api/bank_accounts/''
                             @ (case bank_id of None \<Rightarrow> ''None'' | Some b \<Rightarrow> b)
                             @ ''/transactions'') data) w1 of
                  (Inl e, w2) \<Rightarrow> (Inl (reraise ''Failed to post transaction: '' e), c1, w2)
                | (Inr resp, w2) \<Rightarrow>
                    (case (if status_code resp \<noteq> 200 then raise_for_status resp
                           else Inr ()) of
                       Inl e \<Rightarrow> (Inl (reraise ''Failed to post transaction: '' e), c1, w2)
                     | Inr _ \<Rightarrow> (Inr (), c1, w2)))))"

subsection \<open>Transaction monitor: the loop of \<open>main\<close>\<close>

text \<open>
  The amount in pounds: \<open>abs(a) / 100.0 * -1\<close> for a negative \<open>a\<close>, else
  \<open>abs(a) / 100.0\<close>.
\<close>

definition source_amount :: "int \<Rightarrow> error + pyfloat" where
  "source_amount a =
     (case float_of_int \<bar>a\<bar> of
        Inl e \<Rightarrow> Inl e
      | Inr x \<Rightarrow>
          Inr (if a < 0 then float_mul (float_div (Finite x) 100) (- 1)
               else float_div (Finite x) 100))"

text \<open>
  \<open>merchant_name\<close>: the name of the merchant when the merchant is there and its name
  is not empty, else \<open>transaction.get('description', 'Unknown')\<close>.
\<close>

definition merchant_name :: "txn \<Rightarrow> string" where
  "merchant_name t =
     (let other = (case tx_description t of None \<Rightarrow> ''Unknown'' | Some d \<Rightarrow> d) in
      case tx_merchant t of
        None \<Rightarrow> other
      | Some m \<Rightarrow> (case m_name m of
                     None \<Rightarrow> other
                   | Some n \<Rightarrow> if n \<noteq> [] then n else other))"

text \<open>\<open>not transaction.get('settled', False)\<close>.\<close>

definition is_pending_of :: "txn \<Rightarrow> bool" where
  "is_pending_of t = (case tx_settled t of None \<Rightarrow> True | Some b \<Rightarrow> \<not> b)"

text \<open>
  The state of the loop. \<open>posted\<close> is a history variable, not a variable of the
  script: it records every call of \<open>post_transaction\<close> with the id of the transaction
  and whether the call returned (\<open>True\<close>) or raised (\<open>False\<close>).
\<close>

record monitor =
  initial_transaction_ids :: "string set"
  local_api :: api_client
  LOCAL_BANK_ACCOUNT_ID :: "string option"
  env :: world
  posted :: "(string \<times> bool) list"

text \<open>
  The body of \<open>for transaction in transactions\<close>. The first component of the result
  is an exception that leaves the loops (it is caught by the \<open>except\<close> of the cycle);
  an exception of \<open>post_transaction\<close> is caught here.
\<close>

definition process_transaction :: "txn \<Rightarrow> monitor \<Rightarrow> error option \<times> monitor" where
  "process_transaction t s =
     (if tx_id t \<in> initial_transaction_ids s then (None, s)
      else
        case source_amount (tx_amount t) of
          Inl e \<Rightarrow> (Some e, s)
        | Inr amount0 \<Rightarrow>
            (case strptime_iso (tx_created t) of
               Inl e \<Rightarrow> (Some e, s)
             | Inr transaction_time \<Rightarrow>
                 (case post_transaction (LOCAL_BANK_ACCOUNT_ID s) amount0 (merchant_name t)
                         transaction_time (is_pending_of t) (local_api s) (env s) of
                    (Inr _, c, w) \<Rightarrow>
                      (None, s\<lparr>initial_transaction_ids :=
                                  insert (tx_id t) (initial_transaction_ids s),
                                local_api := c, env := w,
                                posted := posted s @ [(tx_id t, True)]\<rparr>)
                  | (Inl e, c, w) \<Rightarrow>
                      (None, s\<lparr>local_api := c, env := w,
                                posted := posted s @ [(tx_id t, False)]\<rparr>))))"






text \<open>The seed of the seen-set: the ids of the transactions fetched at startup.\<close>

fun seed_ids :: "string \<Rightarrow> account list \<Rightarrow> string set \<Rightarrow> world \<Rightarrow> string set \<times> world" where
  "seed_ids token [] ids w = (ids, w)"
| "seed_ids token (a # as) ids w =
     (if acc_type a = ''us_partner'' then
        (case get_transactions (acc_id a) token w of
           (ts, w') \<Rightarrow> seed_ids token as (ids \<union> set (map tx_id ts)) w')
      else seed_ids token as ids w)"

section \<open>Credential store\<close>

subsection \<open>Python values and the \<open>json\<close> module\<close>

text \<open>
  What \<open>json.loads\<close> returns and \<open>json.dumps\<close> takes: \<open>None\<close>, booleans, integers,
  strings, lists and dictionaries (in insertion order). Floats are left out: no
  configuration of the script holds one.
\<close>

datatype pyobj =
    PNone
  | PBool bool
  | PInt int
  | PStr string
  | PList "pyobj list"
  | PDict "(string \<times> pyobj) list"

text \<open>
  The text format of JSON is the business of Python's \<open>json\<close> module, not of the
  script. The two functions of the module are parameters of the model;
  \<open>json_loads\<close> returns \<open>Inl\<close> where \<open>json.loads\<close> raises.
\<close>

record json_module =
  json_dumps :: "pyobj \<Rightarrow> string"
  json_loads :: "string \<Rightarrow> error + pyobj"

text \<open>The truth value of a Python value, as in \<open>if config:\<close>.\<close>

fun truthy :: "pyobj \<Rightarrow> bool" where
  "truthy PNone = False"
| "truthy (PBool b) = b"
| "truthy (PInt n) = (n \<noteq> 0)"
| "truthy (PStr s) = (s \<noteq> [])"
| "truthy (PList xs) = (xs \<noteq> [])"
| "truthy (PDict kvs) = (kvs \<noteq> [])"

text \<open>\<open>d[k] = v\<close> on a dictionary: an old key keeps its place, a new one goes last.\<close>

fun dict_update :: "string \<Rightarrow> pyobj \<Rightarrow> (string \<times> pyobj) list \<Rightarrow> (string \<times> pyobj) list" where
  "dict_update k v [] = [(k, v)]"
| "dict_update k v ((k', v') # kvs) =
     (if k' = k then (k, v) # kvs else (k', v') # dict_update k v kvs)"

text \<open>\<open>obj[k] = v\<close> with a string \<open>k\<close>: a \<open>TypeError\<close> unless \<open>obj\<close> is a dictionary.\<close>

fun setitem :: "pyobj \<Rightarrow> string \<Rightarrow> pyobj \<Rightarrow> error + pyobj" where
  "setitem (PDict kvs) k v = Inr (PDict (dict_update k v kvs))"
| "setitem _ k v = Inl TypeError"

subsection \<open>\<open>bytes.decode\<close>: UTF-8\<close>

text \<open>
  A \<open>str\<close> is modelled by its UTF-8 bytes, so \<open>str.encode()\<close> is the identity and
  \<open>bytes.decode()\<close> checks that the bytes are well-formed UTF-8 (the table of the
  Unicode standard: no overlong forms, no surrogates, nothing above U+10FFFF).
\<close>

definition byte_in :: "nat \<Rightarrow> nat \<Rightarrow> char \<Rightarrow> bool" where
  "byte_in lo hi c = (lo \<le> of_char c \<and> of_char c \<le> hi)"

function utf8_valid :: "string \<Rightarrow> bool" where
  "utf8_valid [] = True"
| "utf8_valid (a # bs) =
     (if byte_in 0x00 0x7F a then utf8_valid bs
      else if byte_in 0xC2 0xDF a then
        1 \<le> length bs \<and> byte_in 0x80 0xBF (bs ! 0) \<and> utf8_valid (drop 1 bs)
      else if byte_in 0xE0 0xEF a then
        2 \<le> length bs
        \<and> byte_in (if a = CHR 0xE0 then 0xA0 else 0x80) (if a = CHR 0xED then 0x9F else 0xBF)
             (bs ! 0)
        \<and> byte_in 0x80 0xBF (bs ! 1) \<and> utf8_valid (drop 2 bs)
      else if byte_in 0xF0 0xF4 a then
        3 \<le> length bs
        \<and> byte_in (if a = CHR 0xF0 then 0x90 else 0x80) (if a = CHR 0xF4 then 0x8F else 0xBF)
             (bs ! 0)
        \<and> byte_in 0x80 0xBF (bs ! 1) \<and> byte_in 0x80 0xBF (bs ! 2) \<and> utf8_valid (drop 3 bs)
      else False)"
  by pat_completeness auto
termination
  by (relation "measure length") auto

declare utf8_valid.simps [simp del]

definition utf8_decode :: "string \<Rightarrow> error + string" where
  "utf8_decode bs = (if utf8_valid bs then Inr bs else Inl UnicodeDecodeError)"

subsection \<open>\<open>base64\<close>\<close>

definition b64_char :: "nat \<Rightarrow> char" where
  "b64_char n =
     (if n < 26 then char_of (65 + n)
      else if n < 52 then char_of (71 + n)
      else if n < 62 then char_of (n - 4)
      else if n = 62 then CHR ''+'' else CHR ''/'')"

definition b64_value :: "char \<Rightarrow> nat option" where
  "b64_value c =
     (if byte_in 65 90 c then Some (of_char c - 65)
      else if byte_in 97 122 c then Some (of_char c - 71)
      else if byte_in 48 57 c then Some (of_char c + 4)
      else if c = CHR ''+'' then Some 62
      else if c = CHR ''/'' then Some 63
      else None)"

text \<open>\<open>base64.b64encode\<close>: three bytes give four characters; the last group is padded.\<close>

fun b64encode :: "string \<Rightarrow> string" where
  "b64encode (a # b # c # bs) =
     [b64_char (of_char a div 4),
      b64_char (of_char a mod 4 * 16 + of_char b div 16),
      b64_char (of_char b mod 16 * 4 + of_char c div 64),
      b64_char (of_char c mod 64)] @ b64encode bs"
| "b64encode [a, b] =
     [b64_char (of_char a div 4),
      b64_char (of_char a mod 4 * 16 + of_char b div 16),
      b64_char (of_char b mod 16 * 4),
      CHR ''='']"
| "b64encode [a] =
     [b64_char (of_char a div 4), b64_char (of_char a mod 4 * 16), CHR ''='', CHR ''='']"
| "b64encode [] = []"

text \<open>
  \<open>binascii.a2b_base64\<close> as \<open>base64.b64decode\<close> calls it (not strict): the loop over
  the characters with its state \<open>quad_pos\<close>, \<open>leftchar\<close>, \<open>pads\<close> and the bytes decoded
  so far. A character outside the alphabet is skipped; padding that completes a
  group ends the decoding; an incomplete group at the end is an error.
\<close>

fun a2b_base64 :: "nat \<Rightarrow> nat \<Rightarrow> nat \<Rightarrow> string \<Rightarrow> string \<Rightarrow> error + string" where
  "a2b_base64 quad_pos leftchar pads out [] =
     (if quad_pos \<noteq> 0 then Inl BinasciiError else Inr out)"
| "a2b_base64 quad_pos leftchar pads out (c # cs) =
     (if c = CHR ''='' then
        (if 2 \<le> quad_pos \<and> 4 \<le> quad_pos + (pads + 1) then Inr out
         else a2b_base64 quad_pos leftchar (if 2 \<le> quad_pos then pads + 1 else pads) out cs)
      else
        case b64_value c of
          None \<Rightarrow> a2b_base64 quad_pos leftchar pads out cs
        | Some v \<Rightarrow>
            (if quad_pos = 0 then a2b_base64 1 v 0 out cs
             else if quad_pos = 1 then
               a2b_base64 2 (v mod 16) 0 (out @ [char_of (leftchar * 4 + v div 16)]) cs
             else if quad_pos = 2 then
               a2b_base64 3 (v mod 4) 0 (out @ [char_of (leftchar * 16 + v div 4)]) cs
             else a2b_base64 0 0 0 (out @ [char_of (leftchar * 64 + v)]) cs))"

text \<open>
  \<open>base64.b64decode(s)\<close> for a \<open>str\<close>: a \<open>ValueError\<close> when \<open>s\<close> has a character
  outside ASCII, else the decoding above.
\<close>

definition b64decode :: "string \<Rightarrow> error + string" where
  "b64decode s =
     (if list_all (byte_in 0 127) s then a2b_base64 0 0 0 [] s else Inl ValueError)"

subsection \<open>The keyring\<close>

text \<open>
  The keyring of the platform, found usable at startup by
  \<open>check_keyring_requirements\<close>: a store of passwords by service and user name.
  \<open>delete_password\<close> raises \<open>PasswordDeleteError\<close> when there is nothing to delete.
\<close>

definition MONETR_SERVICE :: string where
  "MONETR_SERVICE = ''monzo_bridge_monetr''"

definition MONZO_SERVICE :: string where
  "MONZO_SERVICE = ''monzo_bridge_monzo''"

definition get_password :: "string \<Rightarrow> string \<Rightarrow> world \<Rightarrow> string option" where
  "get_password service user w = keyring w (service, user)"

definition set_password :: "string \<Rightarrow> string \<Rightarrow> string \<Rightarrow> world \<Rightarrow> world" where
  "set_password service user pw w = w\<lparr>keyring := (keyring w)((service, user) \<mapsto> pw)\<rparr>"

definition delete_password :: "string \<Rightarrow> string \<Rightarrow> world \<Rightarrow> (error + unit) \<times> world" where
  "delete_password service user w =
     (case keyring w (service, user) of
        None \<Rightarrow> (Inl PasswordDeleteError, w)
      | Some _ \<Rightarrow> (Inr (), w\<lparr>keyring := (keyring w)((service, user) := None)\<rparr>))"

subsection \<open>Saving and loading a configuration\<close>

text \<open>
  \<open>base64.b64encode(json.dumps(data).encode()).decode()\<close>; the output of
  \<open>b64encode\<close> is ASCII, so the last \<open>decode\<close> cannot fail.
\<close>

definition encrypt_config :: "json_module \<Rightarrow> pyobj \<Rightarrow> string" where
  "encrypt_config lib data = b64encode (json_dumps lib data)"

text \<open>
  \<open>json.loads(base64.b64decode(encrypted_data).decode())\<close>, and \<open>None\<close> for every
  exception.
\<close>

definition decrypt_config :: "json_module \<Rightarrow> string \<Rightarrow> pyobj" where
  "decrypt_config lib encrypted_data =
     (case b64decode encrypted_data of
        Inl e \<Rightarrow> PNone
      | Inr bs \<Rightarrow>
          (case utf8_decode bs of
             Inl e \<Rightarrow> PNone
           | Inr s \<Rightarrow> (case json_loads lib s of Inl e \<Rightarrow> PNone | Inr v \<Rightarrow> v)))"

definition load_monetr_config :: "json_module \<Rightarrow> world \<Rightarrow> pyobj" where
  "load_monetr_config lib w =
     (case get_password MONETR_SERVICE ''config'' w of
        None \<Rightarrow> PNone
      | Some encrypted_data \<Rightarrow>
          if encrypted_data \<noteq> [] then decrypt_config lib encrypted_data else PNone)"

definition load_monzo_config :: "json_module \<Rightarrow> world \<Rightarrow> pyobj" where
  "load_monzo_config lib w =
     (case get_password MONZO_SERVICE ''config'' w of
        None \<Rightarrow> PNone
      | Some encrypted_data \<Rightarrow>
          if encrypted_data \<noteq> [] then decrypt_config lib encrypted_data else PNone)"

definition save_monetr_config :: "json_module \<Rightarrow> pyobj \<Rightarrow> world \<Rightarrow> world" where
  "save_monetr_config lib cfg w = set_password MONETR_SERVICE ''config'' (encrypt_config lib cfg) w"

definition save_monzo_config :: "json_module \<Rightarrow> pyobj \<Rightarrow> world \<Rightarrow> world" where
  "save_monzo_config lib cfg w = set_password MONZO_SERVICE ''config'' (encrypt_config lib cfg) w"

text \<open>\<open>save_tokens\<close>: nothing is saved when no configuration is loaded.\<close>

definition save_tokens :: "json_module \<Rightarrow> string \<Rightarrow> string \<Rightarrow> world \<Rightarrow> (error + unit) \<times> world" where
  "save_tokens lib access refresh w =
     (let cfg = load_monzo_config lib w in
      if truthy cfg then
        (case setitem cfg ''access_token'' (PStr access) of
           Inl e \<Rightarrow> (Inl e, w)
         | Inr cfg1 \<Rightarrow>
             (case setitem cfg1 ''refresh_token'' (PStr refresh) of
                Inl e \<Rightarrow> (Inl e, w)
              | Inr cfg2 \<Rightarrow> (Inr (), save_monzo_config lib cfg2 w)))
      else (Inr (), w))"

subsection \<open>OAuth session manager: the authorization code\<close>

definition get_auth_code :: "world \<Rightarrow> string option" where
  "get_auth_code w = get_password MONZO_SERVICE ''auth_code'' w"

text \<open>\<open>except keyring.errors.PasswordDeleteError: pass\<close>.\<close>

definition clear_auth_code :: "world \<Rightarrow> (error + unit) \<times> world" where
  "clear_auth_code w =
     (case delete_password MONZO_SERVICE ''auth_code'' w of
        (Inl PasswordDeleteError, w') \<Rightarrow> (Inr (), w')
      | (Inl e, w') \<Rightarrow> (Inl e, w')
      | (Inr u, w') \<Rightarrow> (Inr (), w'))"

text \<open>
  \<open>expiry = (datetime.now() + timedelta(seconds=n)).isoformat()\<close>: the value is not
  used, but both the \<open>timedelta\<close> (at most 999999999 days) and the sum (a date from
  year 1 to year 9999, which are 3652059 days) raise \<open>OverflowError\<close> out of range.
\<close>

definition expiry_overflows :: "int \<Rightarrow> int \<Rightarrow> bool" where
  "expiry_overflows now_s n =
     (n div 86400 < - 999999999 \<or> 999999999 < n div 86400
      \<or> now_s + n < 0 \<or> 3652059 * 86400 \<le> now_s + n)"

definition exchange_auth_code ::
  "json_module \<Rightarrow> string \<Rightarrow> string \<Rightarrow> string \<Rightarrow> world \<Rightarrow> (error + string) \<times> world" where
  "exchange_auth_code lib auth_code client_id client_secret w =
     (if \<not> truthy (load_monzo_config lib w) then
        (Inl (Exception ''Monzo configuration not found''), w)
      else
        case http_request (TokenRequest client_id client_secret auth_code) w of
          (Inl e, w1) \<Rightarrow> (Inl e, w1)
        | (Inr resp, w1) \<Rightarrow>
            (case raise_for_status resp of
               Inl e \<Rightarrow> (Inl e, w1)
             | Inr _ \<Rightarrow>
                 (case json resp of
                    NotJson \<Rightarrow> (Inl JSONDecodeError, w1)
                  | NotObject \<Rightarrow> (Inl TypeError, w1)
                  | Object tokens \<Rightarrow>
                      (case expires_in tokens of
                         None \<Rightarrow> (Inl (KeyError ''expires_in''), w1)
                       | Some n \<Rightarrow>
                           if expiry_overflows (now w1) n then (Inl OverflowError, w1)
                           else
                             (case access_token tokens of
                                None \<Rightarrow> (Inl (KeyError ''access_token''), w1)
                              | Some access \<Rightarrow>
                                  (case refresh_token tokens of
                                     None \<Rightarrow> (Inl (KeyError ''refresh_token''), w1)
                                   | Some refresh \<Rightarrow>
                                       (case save_tokens lib access refresh w1 of
                                          (Inl e, w2) \<Rightarrow> (Inl e, w2)
                                        | (Inr _, w2) \<Rightarrow>
                                            (case clear_auth_code w2 of
                                               (Inl e, w3) \<Rightarrow> (Inl e, w3)
                                             | (Inr _, w3) \<Rightarrow> (Inr access, w3)))))))))"

section \<open>Concrete inputs\<close>

text \<open>
  The inputs at which the properties below are evaluated. \<open>replies rs\<close> is the
  network that answers the first requests of a run with \<open>rs\<close>, in this order, and
  refuses every later connection.
\<close>

definition replies :: "(error + response) list \<Rightarrow> nat \<Rightarrow> error + response" where
  "replies rs n = (if n < length rs then rs ! n else Inl (RequestException ''Connection refused''))"

definition example_world :: "(error + response) list \<Rightarrow> world" where
  "example_world rs = \<lparr>net = replies rs, sent = [], keyring = Map.empty, now = 63839000000\<rparr>"

definition no_keys :: json_object where
  "no_keys = \<lparr>accounts = None, transactions = None, access_token = None,
     refresh_token = None, expires_in = None\<rparr>"

definition example_response :: "nat \<Rightarrow> string \<Rightarrow> string \<Rightarrow> json_doc \<Rightarrow> response" where
  "example_response st rs body j =
     \<lparr>status_code = st, reason = rs, url = ''http://localhost:4000/api/authentication/login'',
      body_text = body, cookies = [(''M-Session'', ''0a1b'')], json = j\<rparr>"

definition example_txn_a :: txn where
  "example_txn_a =
     \<lparr>tx_id = ''tx1'', tx_amount = - 500, tx_created = ''2024-01-01T10:00:00.000Z'',
      tx_settled = Some True,
      tx_merchant = Some \<lparr>m_name = Some ''Cafe'', m_emoji = None, m_category = None\<rparr>,
      tx_description = None\<rparr>"

definition example_txn_b :: txn where
  "example_txn_b =
     \<lparr>tx_id = ''tx2'', tx_amount = 1200, tx_created = ''2024-01-01T11:30:00.250Z'',
      tx_settled = Some False, tx_merchant = None, tx_description = Some ''Refund''\<rparr>"

text \<open>A credit of 0.29, and two transactions 10 ms apart.\<close>

definition example_txn_c :: txn where
  "example_txn_c =
     \<lparr>tx_id = ''tx3'', tx_amount = 29, tx_created = ''2024-01-01T12:00:00.5Z'',
      tx_settled = None, tx_merchant = None, tx_description = None\<rparr>"

definition example_txn_d :: txn where
  "example_txn_d =
     \<lparr>tx_id = ''tx4'', tx_amount = - 1234, tx_created = ''2024-01-01T12:00:00.51Z'',
      tx_settled = None,
      tx_merchant = Some \<lparr>m_name = Some [], m_emoji = None, m_category = None\<rparr>,
      tx_description = None\<rparr>"

definition example_client :: api_client where
  "example_client =
     \<lparr>config = \<lparr>monetr_url = ''http://localhost:4000'', monetr_email = ''me@example.org'',
                 monetr_password = ''hunter2'', bank_account_id = ''bac_01''\<rparr>,
      auth_cookie = Some [(''M-Session'', ''0a1b'')]\<rparr>"

definition example_monitor :: "world \<Rightarrow> monitor" where
  "example_monitor w =
     \<lparr>initial_transaction_ids = {''tx1''}, local_api = example_client,
      LOCAL_BANK_ACCOUNT_ID = Some ''bac_01'', env = w, posted = []\<rparr>"

definition example_account :: account where
  "example_account = \<lparr>acc_id = ''acc_1'', acc_type = ''us_partner'', acc_description = ''Current''\<rparr>"

text \<open>Responses and request bodies of the evaluations.\<close>

definition example_ok :: response where
  "example_ok = example_response 200 ''OK'' ''{}'' (Object no_keys)"

definition example_data_b :: transaction_data where
  "example_data_b =
     \<lparr>bankAccountId = Some ''bac_01'', amount = - 1200, name = ''Refund'',
      merchantName = ''Refund'', date = ''2024-01-01T11:30:00.000Z'', isPending = True,
      spendingId = None, adjustsBalance = True\<rparr>"

definition example_data_c :: transaction_data where
  "example_data_c =
     \<lparr>bankAccountId = Some ''bac_01'', amount = - 28, name = ''Unknown'',
      merchantName = ''Unknown'', date = ''2024-01-01T12:00:00.000Z'', isPending = True,
      spendingId = None, adjustsBalance = True\<rparr>"

definition example_post_url :: string where
  "example_post_url = ''http://localhost:4000/api/bank_accounts/bac_01/transactions''"

definition example_forbidden :: response where
  "example_forbidden =
     example_response 403 ''Forbidden'' ''forbidden.insufficient_permissions'' (Object no_keys)"

definition example_unauthorized :: response where
  "example_unauthorized =
     example_response 401 ''Unauthorized'' ''invalid credentials'' (Object no_keys)"

definition example_no_content :: response where
  "example_no_content = example_response 204 ''No Content'' [] NotJson"

definition example_listing :: "nat \<Rightarrow> txn list \<Rightarrow> response" where
  "example_listing st ts =
     example_response st ''OK'' ''...''
       (Object (no_keys\<lparr>transactions := Some (TxList (map Entry ts))\<rparr>))"

text \<open>
  A configuration of the Monzo client before and after the tokens are saved, with the
  texts that \<open>json.dumps\<close> prints for them, and their encodings. \<open>example_json\<close>
  stands for the \<open>json\<close> module in the evaluations: it agrees with the module on
  these two configurations.
\<close>

definition quoted :: "string \<Rightarrow> string" where
  "quoted s = CHR 0x22 # s @ [CHR 0x22]"

definition example_config :: pyobj where
  "example_config =
     PDict [(''client_id'', PStr ''abc''), (''client_secret'', PStr ''s3''),
            (''access_token'', PNone), (''refresh_token'', PNone)]"

definition example_config_tokens :: pyobj where
  "example_config_tokens =
     PDict [(''client_id'', PStr ''abc''), (''client_secret'', PStr ''s3''),
            (''access_token'', PStr ''at1''), (''refresh_token'', PStr ''rt1'')]"

definition example_config_text :: string where
  "example_config_text =
     ''{'' @ quoted ''client_id'' @ '': '' @ quoted ''abc'' @ '', ''
     @ quoted ''client_secret'' @ '': '' @ quoted ''s3'' @ '', ''
     @ quoted ''access_token'' @ '': null, '' @ quoted ''refresh_token'' @ '': null}''"

definition example_tokens_text :: string where
  "example_tokens_text =
     ''{'' @ quoted ''client_id'' @ '': '' @ quoted ''abc'' @ '', ''
     @ quoted ''client_secret'' @ '': '' @ quoted ''s3'' @ '', ''
     @ quoted ''access_token'' @ '': '' @ quoted ''at1'' @ '', ''
     @ quoted ''refresh_token'' @ '': '' @ quoted ''rt1'' @ ''}''"

definition example_config_b64 :: string where
  "example_config_b64 =
     ''eyJjbGllbnRfaWQiOiAiYWJjIiwgImNsaWVudF9zZWNyZXQiOiAiczMiLCAiYWNjZXNzX3Rva2VuIjogbnVsbCwgInJlZnJlc2hfdG9rZW4iOiBudWxsfQ==''"

definition example_tokens_b64 :: string where
  "example_tokens_b64 =
     ''eyJjbGllbnRfaWQiOiAiYWJjIiwgImNsaWVudF9zZWNyZXQiOiAiczMiLCAiYWNjZXNzX3Rva2VuIjogImF0MSIsICJyZWZyZXNoX3Rva2VuIjogInJ0MSJ9''"

definition example_dumps :: "pyobj \<Rightarrow> string" where
  "example_dumps v =
     (if v = example_config then example_config_text
      else if v = example_config_tokens then example_tokens_text
      else ''null'')"

definition example_loads :: "string \<Rightarrow> error + pyobj" where
  "example_loads s =
     (if s = example_config_text then Inr example_config
      else if s = example_tokens_text then Inr example_config_tokens
      else Inl JSONDecodeError)"

definition example_json :: json_module where
  "example_json = \<lparr>json_dumps = example_dumps, json_loads = example_loads\<rparr>"

text \<open>
  A world in which the Monzo client is configured and a callback has stored the
  authorization code; the token endpoint answers with a pair of tokens.
\<close>

definition example_token_response :: response where
  "example_token_response =
     example_response 200 ''OK'' ''...''
       (Object (no_keys\<lparr>access_token := Some ''at1'', refresh_token := Some ''rt1'',
                         expires_in := Some 21600\<rparr>))"

definition example_authorized :: world where
  "example_authorized =
     set_password MONZO_SERVICE ''auth_code'' ''code123''
       (set_password MONZO_SERVICE ''config'' example_config_b64
          (example_world [Inr example_token_response]))"

section \<open>The history of the post attempts\<close>





text \<open>
  A run of three passes: the transaction \<open>tx1\<close> is in the seed set; the post of the new
  transaction \<open>tx2\<close> fails in the first pass (503) and succeeds in the second.
\<close>

definition example_unavailable :: response where
  "example_unavailable = example_response 503 ''Service Unavailable'' ''try later'' NotJson"


text \<open>
  A state in which the post of \<open>tx2\<close> has failed once: the log holds the request, and
  the next request will be answered with 200.
\<close>

definition example_retry :: monitor where
  "example_retry =
     example_monitor
       ((example_world [Inr example_unavailable, Inr example_ok])
          \<lparr>sent := [PostTransaction example_post_url example_data_b]\<rparr>)"



text \<open>Two bodies with a malformed value of \<open>transactions\<close>.\<close>

definition example_no_created :: response where
  "example_no_created =
     example_response 200 ''OK'' ''...''
       (Object (no_keys\<lparr>transactions := Some (TxList [Entry example_txn_a, NoCreated])\<rparr>))"

definition example_null_list :: response where
  "example_null_list =
     example_response 200 ''OK'' ''...'' (Object (no_keys\<lparr>transactions := Some TxOther\<rparr>))"

section \<open>Verified properties\<close>

subsection \<open>Evaluation\<close>

lemma floor_rat_numeral:
  "\<lfloor>numeral a / numeral b :: rat\<rfloor> = numeral a div numeral b"
  "\<lfloor>- (numeral a / numeral b) :: rat\<rfloor> = - numeral a div numeral b"
  "\<lceil>numeral a / numeral b :: rat\<rceil> = - (- numeral a div numeral b)"
  "\<lceil>- (numeral a / numeral b) :: rat\<rceil> = - (numeral a div numeral b)"
proof -
  show "\<lfloor>numeral a / numeral b :: rat\<rfloor> = numeral a div numeral b"
    using floor_divide_of_int_eq [of "numeral a" "numeral b", where ?'a = rat] by simp
  show "\<lfloor>- (numeral a / numeral b) :: rat\<rfloor> = - numeral a div numeral b"
    using floor_divide_of_int_eq [of "- numeral a" "numeral b", where ?'a = rat] by simp
  show "\<lceil>numeral a / numeral b :: rat\<rceil> = - (- numeral a div numeral b)"
    using floor_divide_of_int_eq [of "- numeral a" "numeral b", where ?'a = rat]
    by (simp add: ceiling_def)
  show "\<lceil>- (numeral a / numeral b) :: rat\<rceil> = - (numeral a div numeral b)"
    using floor_divide_of_int_eq [of "numeral a" "numeral b", where ?'a = rat]
    by (simp add: ceiling_def)
qed

lemmas float_eval = float_of_int_def fl_def round_to_double_def floor_log2_def
  round_half_even_def bitlen.simps Let_def scale2_def floor_rat_numeral

lemma replies_simps:
  "replies (r # rs) 0 = r"
  "replies (r # rs) (Suc n) = replies rs n"
  "replies [] n = Inl (RequestException ''Connection refused'')"
  by (simp_all add: replies_def)

lemma strptime_txn_b:
  "strptime_iso ''2024-01-01T11:30:00.250Z'' =
     Inr \<lparr>year = 2024, month = 1, day = 1, hour = 11, minute = 30, second = 0,
          microsecond = 250000\<rparr>"
  by code_simp

lemma strptime_txn_c:
  "strptime_iso ''2024-01-01T12:00:00.5Z'' =
     Inr \<lparr>year = 2024, month = 1, day = 1, hour = 12, minute = 0, second = 0,
          microsecond = 500000\<rparr>"
  by code_simp

lemma strptime_txn_d:
  "strptime_iso ''2024-01-01T12:00:00.51Z'' =
     Inr \<lparr>year = 2024, month = 1, day = 1, hour = 12, minute = 0, second = 0,
          microsecond = 510000\<rparr>"
  by code_simp

lemma strftime_eval:
  "strftime_post \<lparr>year = 2024, month = Suc 0, day = Suc 0, hour = 11, minute = 30, second = 0,
          microsecond = f\<rparr> = ''2024-01-01T11:30:00.000Z''"
  "strftime_post \<lparr>year = 2024, month = Suc 0, day = Suc 0, hour = 12, minute = 0, second = 0,
          microsecond = f\<rparr> = ''2024-01-01T12:00:00.000Z''"
  by (simp_all add: strftime_post_def pad2_def show_nat.simps)

lemma source_amount_eval:
  "source_amount 1200 = Inr (Finite 12)"
  "source_amount 29 = Inr (Finite (5224175567749775 / 18014398509481984))"
  by (simp_all add: source_amount_def float_eval)

lemma build_eval:
  "build_transaction_data b (Finite 12) n dt p =
     Inr \<lparr>bankAccountId = b, amount = - 1200, name = n, merchantName = n,
          date = strftime_post dt, isPending = p, spendingId = None, adjustsBalance = True\<rparr>"
  "build_transaction_data b (Finite (5224175567749775 / 18014398509481984)) n dt p =
     Inr \<lparr>bankAccountId = b, amount = - 28, name = n, merchantName = n,
          date = strftime_post dt, isPending = p, spendingId = None, adjustsBalance = True\<rparr>"
  by (simp_all add: build_transaction_data_def float_eval)

lemma process_txn_b:
  "sent (env (snd (process_transaction example_txn_b
            (example_monitor (example_world [Inr example_ok])))))
   = [PostTransaction example_post_url example_data_b]"
  by (simp add: process_transaction_def example_txn_b_def example_monitor_def
      example_world_def example_client_def example_ok_def example_response_def
      source_amount_eval strptime_txn_b build_eval strftime_eval post_transaction_def
      cookie_missing_def http_request_def replies_simps merchant_name_def is_pending_of_def
      example_post_url_def example_data_b_def)

lemma process_txn_c:
  "sent (env (snd (process_transaction example_txn_c
            (example_monitor (example_world [Inr example_ok])))))
   = [PostTransaction example_post_url example_data_c]"
  by (simp add: process_transaction_def example_txn_c_def example_monitor_def
      example_world_def example_client_def example_ok_def example_response_def
      source_amount_eval strptime_txn_c build_eval strftime_eval post_transaction_def
      cookie_missing_def http_request_def replies_simps merchant_name_def is_pending_of_def
      example_post_url_def example_data_c_def)

subsection \<open>What a pass sends\<close>

lemma login_sent:
  "sent (snd (snd (login c w))) = sent w @ [LoginRequest
      (monetr_url (config c) @ ''/api/authentication/login'')
      (monetr_email (config c)) (monetr_password (config c))]"
  by (simp add: login_def http_request_def split: sum.splits prod.splits)

lemma login_appends:
  "\<exists>new. sent (snd (snd (login c w))) = sent w @ new
        \<and> (\<forall>u d. PostTransaction u d \<notin> set new)"
  using login_sent [of c w] by simp

lemma post_transaction_appends:
  "\<exists>new. sent (snd (snd (post_transaction b a n dt p c w))) = sent w @ new
        \<and> (\<forall>u d. PostTransaction u d \<in> set new \<longrightarrow> build_transaction_data b a n dt p = Inr d)"
proof -
  obtain r1 c1 w1 where l: "(if cookie_missing c then login c w else (Inr (), c, w)) = (r1, c1, w1)"
    by (metis prod_cases3)
  have "\<exists>new. sent (snd (snd (if cookie_missing c then login c w else (Inr (), c, w))))
          = sent w @ new \<and> (\<forall>u d. PostTransaction u d \<notin> set new)"
    using login_appends [of c w] by (cases "cookie_missing c") simp_all
  then obtain l1 where l1: "sent w1 = sent w @ l1" and n1: "\<forall>u d. PostTransaction u d \<notin> set l1"
    using l by auto
  show ?thesis
  proof (cases r1)
    case (Inl e)
    then have "sent (snd (snd (post_transaction b a n dt p c w))) = sent w @ l1"
      using l l1 by (simp add: post_transaction_def)
    then show ?thesis using n1 by blast
  next
    case r: (Inr x)
    show ?thesis
    proof (cases "build_transaction_data b a n dt p")
      case (Inl e)
      then have "sent (snd (snd (post_transaction b a n dt p c w))) = sent w @ l1"
        using l l1 r by (simp add: post_transaction_def)
      then show ?thesis using n1 by blast
    next
      case d: (Inr data)
      have "\<exists>u. sent (snd (snd (post_transaction b a n dt p c w)))
          = sent w @ (l1 @ [PostTransaction u data])"
        using l l1 r d
        by (auto simp: post_transaction_def http_request_def split: sum.splits prod.splits)
      then obtain u where
        "sent (snd (snd (post_transaction b a n dt p c w))) = sent w @ (l1 @ [PostTransaction u data])"
        by blast
      moreover have "\<forall>u' d'. PostTransaction u' d' \<in> set (l1 @ [PostTransaction u data])
          \<longrightarrow> build_transaction_data b a n dt p = Inr d'"
        using n1 d by auto
      ultimately show ?thesis by blast
    qed
  qed
qed

lemma process_transaction_appends:
  "\<exists>new. sent (env (snd (process_transaction t s))) = sent (env s) @ new
        \<and> (\<forall>u d. PostTransaction u d \<in> set new \<longrightarrow>
              (\<exists>a dt. source_amount (tx_amount t) = Inr a
                 \<and> strptime_iso (tx_created t) = Inr dt
                 \<and> build_transaction_data (LOCAL_BANK_ACCOUNT_ID s) a (merchant_name t) dt
                      (is_pending_of t) = Inr d))"
proof -
  have same: ?thesis if "env (snd (process_transaction t s)) = env s"
  proof -
    have "sent (env (snd (process_transaction t s))) = sent (env s) @ []" using that by simp
    moreover have "\<forall>u d. PostTransaction u d \<in> set ([] :: request list) \<longrightarrow>
              (\<exists>a dt. source_amount (tx_amount t) = Inr a
                 \<and> strptime_iso (tx_created t) = Inr dt
                 \<and> build_transaction_data (LOCAL_BANK_ACCOUNT_ID s) a (merchant_name t) dt
                      (is_pending_of t) = Inr d)"
      by simp
    ultimately show ?thesis by blast
  qed
  show ?thesis
  proof (cases "tx_id t \<in> initial_transaction_ids s")
    case True
    then show ?thesis by (intro same) (simp add: process_transaction_def)
  next
    case False
    show ?thesis
    proof (cases "source_amount (tx_amount t)")
      case (Inl e)
      then show ?thesis using False by (intro same) (simp add: process_transaction_def)
    next
      case a: (Inr a)
      show ?thesis
      proof (cases "strptime_iso (tx_created t)")
        case (Inl e)
        then show ?thesis using False a by (intro same) (simp add: process_transaction_def)
      next
        case dt: (Inr dt)
        obtain r c w where p: "post_transaction (LOCAL_BANK_ACCOUNT_ID s) a (merchant_name t) dt
            (is_pending_of t) (local_api s) (env s) = (r, c, w)"
          by (metis prod_cases3)
        have e: "env (snd (process_transaction t s)) = w"
          using False a dt p by (simp add: process_transaction_def split: sum.splits)
        from post_transaction_appends [of "LOCAL_BANK_ACCOUNT_ID s" a "merchant_name t" dt
            "is_pending_of t" "local_api s" "env s"]
        obtain new where n: "sent w = sent (env s) @ new"
          and b: "\<forall>u d. PostTransaction u d \<in> set new \<longrightarrow>
                build_transaction_data (LOCAL_BANK_ACCOUNT_ID s) a (merchant_name t) dt
                  (is_pending_of t) = Inr d"
          using p by auto
        have "\<forall>u d. PostTransaction u d \<in> set new \<longrightarrow>
              (\<exists>a dt. source_amount (tx_amount t) = Inr a
                 \<and> strptime_iso (tx_created t) = Inr dt
                 \<and> build_transaction_data (LOCAL_BANK_ACCOUNT_ID s) a (merchant_name t) dt
                      (is_pending_of t) = Inr d)"
          using a dt b by blast
        then show ?thesis using e n by blast
      qed
    qed
  qed
qed

lemma build_transaction_data_fields:
  "build_transaction_data b a n dt p = Inr d \<Longrightarrow>
     name d = n \<and> merchantName d = n \<and> date d = strftime_post dt \<and> isPending d = p"
  by (auto simp: build_transaction_data_def Let_def split: sum.splits)

lemma strftime_post_microsecond:
  "strftime_post (dt\<lparr>microsecond := f\<rparr>) = strftime_post dt"
  by (simp add: strftime_post_def)

lemma strftime_post_suffix: "suffix ''.000Z'' (strftime_post dt)"
  unfolding strftime_post_def suffix_def by (metis append.assoc)

lemma process_txn_b_retry:
  "sent (env (snd (process_transaction example_txn_b example_retry)))
   = [PostTransaction example_post_url example_data_b,
      PostTransaction example_post_url example_data_b]"
  by (simp add: process_transaction_def example_txn_b_def example_monitor_def example_retry_def
      example_world_def example_client_def example_ok_def example_response_def
      source_amount_eval strptime_txn_b build_eval strftime_eval post_transaction_def
      cookie_missing_def http_request_def replies_simps merchant_name_def is_pending_of_def
      example_post_url_def example_data_b_def)

lemma example_retry_sent:
  "sent (env example_retry) = [PostTransaction example_post_url example_data_b]"
  by (simp add: example_retry_def example_monitor_def example_world_def)

lemmas example_defs = example_world_def example_response_def no_keys_def example_ok_def
  example_client_def example_monitor_def example_account_def

subsection \<open>C10: the date of a posted transaction\<close>

text \<open>
  Claim C10. Of the requests that the processing of a transaction appends to the log,
  every post has a \<open>date\<close> that is the parsed creation time of that transaction printed
  with the milliseconds \<open>000\<close> and the suffix \<open>Z\<close>: the fraction of a second that was
  parsed is dropped (the date is that of the same time with the microseconds set to 0).
\<close>

theorem posted_date_drops_fraction:
  "\<exists>new. sent (env (snd (process_transaction t s))) = sent (env s) @ new
     \<and> (\<forall>u d. PostTransaction u d \<in> set new \<longrightarrow>
           (\<exists>dt. strptime_iso (tx_created t) = Inr dt
              \<and> date d = strftime_post (dt\<lparr>microsecond := 0\<rparr>)
              \<and> suffix ''.000Z'' (date d)))"
proof -
  from process_transaction_appends [of t s]
  obtain new where n: "sent (env (snd (process_transaction t s))) = sent (env s) @ new"
    and b: "\<forall>u d. PostTransaction u d \<in> set new \<longrightarrow>
              (\<exists>a dt. source_amount (tx_amount t) = Inr a
                 \<and> strptime_iso (tx_created t) = Inr dt
                 \<and> build_transaction_data (LOCAL_BANK_ACCOUNT_ID s) a (merchant_name t) dt
                      (is_pending_of t) = Inr d)"
    by blast
  have "\<exists>dt. strptime_iso (tx_created t) = Inr dt
              \<and> date d = strftime_post (dt\<lparr>microsecond := 0\<rparr>)
              \<and> suffix ''.000Z'' (date d)"
    if "PostTransaction u d \<in> set new" for u d
  proof -
    from b that obtain a dt where dt: "strptime_iso (tx_created t) = Inr dt"
      and d: "build_transaction_data (LOCAL_BANK_ACCOUNT_ID s) a (merchant_name t) dt
                (is_pending_of t) = Inr d"
      by blast
    have "date d = strftime_post dt" using build_transaction_data_fields [OF d] by simp
    then show ?thesis using dt by (simp add: strftime_post_microsecond strftime_post_suffix)
  qed
  then show ?thesis using n by blast
qed

theorem posted_date_drops_fraction_witness:
  "tx_created example_txn_b = ''2024-01-01T11:30:00.250Z''
   \<and> sent (env example_retry) = [PostTransaction example_post_url example_data_b]
   \<and> sent (env (snd (process_transaction example_txn_b example_retry)))
       = [PostTransaction example_post_url example_data_b,
          PostTransaction example_post_url example_data_b]
   \<and> date example_data_b = ''2024-01-01T11:30:00.000Z''
   \<and> suffix ''.000Z'' (date example_data_b)"
proof -
  from posted_date_drops_fraction [of example_txn_b example_retry]
  obtain new where n: "sent (env (snd (process_transaction example_txn_b example_retry)))
      = sent (env example_retry) @ new"
    and b: "\<forall>u d. PostTransaction u d \<in> set new \<longrightarrow>
           (\<exists>dt. strptime_iso (tx_created example_txn_b) = Inr dt
              \<and> date d = strftime_post (dt\<lparr>microsecond := 0\<rparr>)
              \<and> suffix ''.000Z'' (date d))"
    by blast
  have "new = [PostTransaction example_post_url example_data_b]"
    using n by (simp add: process_txn_b_retry example_retry_sent)
  then have "suffix ''.000Z'' (date example_data_b)" using b by auto
  then show ?thesis
    using process_txn_b_retry example_retry_sent
    by (simp add: example_txn_b_def example_data_b_def)
qed

subsection \<open>C5: the display name\<close>

text \<open>
  Claim C5. Of the requests that the processing of a transaction appends to the log,
  every post has the \<open>name\<close> (and the \<open>merchantName\<close>) \<open>merchant_name\<close> of that
  transaction, which is resolved by precedence: the name of the merchant when the
  transaction has a merchant with a non-empty name; otherwise the description when the
  transaction has one; otherwise the literal \<open>Unknown\<close>.
\<close>

theorem merchant_name_precedence:
  "(\<exists>new. sent (env (snd (process_transaction t s))) = sent (env s) @ new
      \<and> (\<forall>u d. PostTransaction u d \<in> set new \<longrightarrow>
            name d = merchant_name t \<and> merchantName d = merchant_name t))
   \<and> (\<forall>m n. tx_merchant t = Some m \<and> m_name m = Some n \<and> n \<noteq> [] \<longrightarrow> merchant_name t = n)
   \<and> ((tx_merchant t = None
        \<or> (\<exists>m. tx_merchant t = Some m \<and> (m_name m = None \<or> m_name m = Some [])))
       \<longrightarrow> merchant_name t = (case tx_description t of Some x \<Rightarrow> x | None \<Rightarrow> ''Unknown''))"
proof -
  from process_transaction_appends [of t s]
  obtain new where n: "sent (env (snd (process_transaction t s))) = sent (env s) @ new"
    and b: "\<forall>u d. PostTransaction u d \<in> set new \<longrightarrow>
              (\<exists>a dt. source_amount (tx_amount t) = Inr a
                 \<and> strptime_iso (tx_created t) = Inr dt
                 \<and> build_transaction_data (LOCAL_BANK_ACCOUNT_ID s) a (merchant_name t) dt
                      (is_pending_of t) = Inr d)"
    by blast
  have "name d = merchant_name t \<and> merchantName d = merchant_name t"
    if "PostTransaction u d \<in> set new" for u d
  proof -
    from b that obtain a dt where
      "build_transaction_data (LOCAL_BANK_ACCOUNT_ID s) a (merchant_name t) dt
         (is_pending_of t) = Inr d"
      by blast
    from build_transaction_data_fields [OF this] show ?thesis by simp
  qed
  then have 1: "\<exists>new. sent (env (snd (process_transaction t s))) = sent (env s) @ new
      \<and> (\<forall>u d. PostTransaction u d \<in> set new \<longrightarrow>
            name d = merchant_name t \<and> merchantName d = merchant_name t)"
    using n by blast
  have 2: "\<forall>m n. tx_merchant t = Some m \<and> m_name m = Some n \<and> n \<noteq> []
      \<longrightarrow> merchant_name t = n"
    by (simp add: merchant_name_def)
  have 3: "(tx_merchant t = None
          \<or> (\<exists>m. tx_merchant t = Some m \<and> (m_name m = None \<or> m_name m = Some [])))
         \<longrightarrow> merchant_name t = (case tx_description t of Some x \<Rightarrow> x | None \<Rightarrow> ''Unknown'')"
    by (auto simp: merchant_name_def split: option.splits)
  show ?thesis using 1 2 3 by blast
qed

theorem merchant_name_precedence_witness:
  "sent (env example_retry) = [PostTransaction example_post_url example_data_b]
   \<and> sent (env (snd (process_transaction example_txn_b example_retry)))
       = [PostTransaction example_post_url example_data_b,
          PostTransaction example_post_url example_data_b]
   \<and> tx_merchant example_txn_b = None
   \<and> tx_description example_txn_b = Some ''Refund''
   \<and> name example_data_b = ''Refund''
   \<and> merchant_name example_txn_a = ''Cafe''
   \<and> merchant_name example_txn_d = ''Unknown''"
proof -
  note pre = merchant_name_precedence [of example_txn_b example_retry]
  from pre obtain new where
    n: "sent (env (snd (process_transaction example_txn_b example_retry)))
      = sent (env example_retry) @ new"
    and b: "\<forall>u d. PostTransaction u d \<in> set new \<longrightarrow>
            name d = merchant_name example_txn_b \<and> merchantName d = merchant_name example_txn_b"
    by blast
  have "new = [PostTransaction example_post_url example_data_b]"
    using n by (simp add: process_txn_b_retry example_retry_sent)
  then have x: "name example_data_b = merchant_name example_txn_b" using b by auto
  have m: "tx_merchant example_txn_b = None" "tx_description example_txn_b = Some ''Refund''"
    by (simp_all add: example_txn_b_def)
  have c: "merchant_name example_txn_b = ''Refund''" using pre m by simp
  have a: "merchant_name example_txn_a = ''Cafe''"
    by (simp add: merchant_name_def example_txn_a_def)
  have d: "merchant_name example_txn_d = ''Unknown''"
    by (simp add: merchant_name_def example_txn_d_def)
  show ?thesis using process_txn_b_retry example_retry_sent m a c d x by simp
qed

subsection \<open>C1: the posted amount\<close>

text \<open>
  Claim C1 says that the posted amount is the exact negation of the source amount in
  minor units. The script divides by \<open>100.0\<close>, negates, multiplies by \<open>100\<close> and
  truncates, all in binary floating point: for the source amount 29 the product is
  \<open>-28.999999999999996\<close> and the posted amount is \<open>-28\<close>, not \<open>-29\<close>.
\<close>

theorem amount_29_is_posted_as_28:
  "tx_amount example_txn_c = 29
   \<and> sent (env (snd (process_transaction example_txn_c
            (example_monitor (example_world [Inr example_ok])))))
       = [PostTransaction example_post_url example_data_c]
   \<and> amount example_data_c = - 28"
proof -
  have a: "tx_amount example_txn_c = 29" by (simp add: example_txn_c_def)
  have b: "amount example_data_c = - 28" by (simp add: example_data_c_def)
  show ?thesis using a b process_txn_c by blast
qed

subsection \<open>C2: \<open>get_accounts\<close> and the status of the response\<close>

text \<open>
  Claim C2 says that listing the accounts fails on a status outside 200 to 299.
  \<open>get_accounts\<close> never looks at the status: for a response 403 whose body is a JSON
  object without the key \<open>accounts\<close> it returns the empty list.
\<close>

theorem get_accounts_ignores_status:
  "status_code example_forbidden = 403
   \<and> fst (get_accounts ''token'' (example_world [Inr example_forbidden])) = Inr []"
  by (simp add: get_accounts_def http_request_def example_defs example_forbidden_def replies_simps)

subsection \<open>C9: the order of the fetched transactions\<close>

text \<open>
  Claim C9 says that the fetched transactions come newest first. The script sorts by
  the \<open>created\<close> strings, and their order is not the order of the times when the
  fractions of a second have different lengths: \<open>...00.5Z\<close> (500 ms) is put before
  \<open>...00.51Z\<close> (510 ms), which is the newer one.
\<close>

theorem string_order_is_not_time_order:
  "fst (get_transactions ''acc_1'' ''token''
          (example_world [Inr (example_listing 200 [example_txn_d, example_txn_c])]))
     = [example_txn_c, example_txn_d]
   \<and> map_sum id microsecond (strptime_iso (tx_created example_txn_c)) = Inr 500000
   \<and> map_sum id microsecond (strptime_iso (tx_created example_txn_d)) = Inr 510000"
  by (simp add: get_transactions_def get_transactions_try_def http_request_def example_defs
      example_listing_def replies_simps raise_for_status_def sorted_transactions_def sorted_reverse_def
      example_txn_c_def example_txn_d_def strptime_txn_c strptime_txn_d)

lemma created_entries_malformed:
  "NoCreated \<in> set es \<or> NotAnObject \<in> set es \<Longrightarrow> \<exists>e. created_entries es = Inl e"
proof (induction es)
  case Nil
  then show ?case by simp
next
  case (Cons x es)
  then show ?case by (cases x) auto
qed

subsection \<open>C6: \<open>get_transactions\<close> swallows errors\<close>

text \<open>
  Claim C6, amended. When the request fails, when the status of the response is from
  400 to 599, or when the body is malformed, \<open>get_transactions\<close> returns the empty
  list. A malformed body is one that is not JSON, that is not a JSON object, or that
  is an object whose \<open>transactions\<close> is not a list of objects with the key \<open>created\<close>
  (it is no list, or an element of the list has no such key or is no object); an
  object without the key \<open>transactions\<close> gives the empty list as well. And whatever
  exception is raised in the \<open>try\<close> block, the result is the empty list.
\<close>

theorem get_transactions_swallows_errors:
  "(((\<exists>e. net w (length (sent w)) = Inl e)
      \<or> (\<exists>r. net w (length (sent w)) = Inr r
            \<and> ((400 \<le> status_code r \<and> status_code r < 600)
                \<or> json r = NotJson \<or> json r = NotObject
                \<or> (\<exists>data. json r = Object data
                      \<and> (transactions data = None
                          \<or> transactions data = Some TxOther
                          \<or> transactions data = Some TxEmpty
                          \<or> (\<exists>es. transactions data = Some (TxList es)
                                \<and> (NoCreated \<in> set es \<or> NotAnObject \<in> set es)))))))
     \<longrightarrow> fst (get_transactions account_id token w) = [])
   \<and> ((\<exists>e. fst (get_transactions_try account_id token w) = Inl e)
     \<longrightarrow> fst (get_transactions account_id token w) = [])"
proof (intro conjI impI)
  assume "(\<exists>e. net w (length (sent w)) = Inl e)
      \<or> (\<exists>r. net w (length (sent w)) = Inr r
            \<and> ((400 \<le> status_code r \<and> status_code r < 600)
                \<or> json r = NotJson \<or> json r = NotObject
                \<or> (\<exists>data. json r = Object data
                      \<and> (transactions data = None
                          \<or> transactions data = Some TxOther
                          \<or> transactions data = Some TxEmpty
                          \<or> (\<exists>es. transactions data = Some (TxList es)
                                \<and> (NoCreated \<in> set es \<or> NotAnObject \<in> set es))))))"
  then consider (err) e where "net w (length (sent w)) = Inl e"
    | (status) r where "net w (length (sent w)) = Inr r"
        "400 \<le> status_code r \<and> status_code r < 600"
    | (body) r where "net w (length (sent w)) = Inr r" "json r = NotJson \<or> json r = NotObject"
    | (simple) r data where "net w (length (sent w)) = Inr r" "json r = Object data"
        "transactions data = None \<or> transactions data = Some TxOther
         \<or> transactions data = Some TxEmpty"
    | (entries) r data es where "net w (length (sent w)) = Inr r" "json r = Object data"
        "transactions data = Some (TxList es)" "NoCreated \<in> set es \<or> NotAnObject \<in> set es"
    by blast
  then show "fst (get_transactions account_id token w) = []"
  proof cases
    case err
    then show ?thesis
      by (simp add: get_transactions_def get_transactions_try_def http_request_def)
  next
    case status
    then show ?thesis
      by (auto simp: get_transactions_def get_transactions_try_def http_request_def
          raise_for_status_def)
  next
    case body
    then show ?thesis
      by (auto simp: get_transactions_def get_transactions_try_def http_request_def
          split: sum.splits)
  next
    case simple
    then show ?thesis
      by (auto simp: get_transactions_def get_transactions_try_def http_request_def
          sorted_transactions_def split: sum.splits)
  next
    case entries
    from created_entries_malformed [OF entries(4)]
    obtain e where "created_entries es = Inl e" by blast
    with entries show ?thesis
      by (auto simp: get_transactions_def get_transactions_try_def http_request_def
          sorted_transactions_def split: sum.splits)
  qed
next
  assume "\<exists>e. fst (get_transactions_try account_id token w) = Inl e"
  then show "fst (get_transactions account_id token w) = []"
    by (cases "get_transactions_try account_id token w") (auto simp: get_transactions_def)
qed

theorem get_transactions_swallows_errors_witness:
  "fst (get_transactions ''acc_1'' ''token'' (example_world [])) = []
   \<and> fst (get_transactions ''acc_1'' ''token''
            (example_world [Inr (example_listing 503 [example_txn_a])])) = []
   \<and> fst (get_transactions ''acc_1'' ''token'' (example_world [Inr example_no_content])) = []
   \<and> fst (get_transactions ''acc_1'' ''token'' (example_world [Inr example_null_list])) = []
   \<and> fst (get_transactions_try ''acc_1'' ''token'' (example_world [Inr example_no_created]))
       = Inl (KeyError ''created'')
   \<and> fst (get_transactions ''acc_1'' ''token'' (example_world [Inr example_no_created])) = []"
proof -
  have 1: "\<exists>e. net (example_world []) (length (sent (example_world []))) = Inl e"
    by (simp add: example_world_def replies_simps)
  have 2: "\<exists>r. net (example_world [Inr (example_listing 503 [example_txn_a])])
         (length (sent (example_world [Inr (example_listing 503 [example_txn_a])]))) = Inr r
       \<and> 400 \<le> status_code r \<and> status_code r < 600"
    by (simp add: example_world_def replies_simps example_listing_def example_response_def)
  have 3: "\<exists>r. net (example_world [Inr example_no_content])
         (length (sent (example_world [Inr example_no_content]))) = Inr r
       \<and> json r = NotJson"
    by (simp add: example_world_def replies_simps example_no_content_def example_response_def)
  have 4: "\<exists>r. net (example_world [Inr example_null_list])
         (length (sent (example_world [Inr example_null_list]))) = Inr r
       \<and> (\<exists>data. json r = Object data \<and> transactions data = Some TxOther)"
    by (simp add: example_world_def replies_simps example_null_list_def example_response_def)
  have 5: "fst (get_transactions_try ''acc_1'' ''token''
                 (example_world [Inr example_no_created])) = Inl (KeyError ''created'')"
    by (simp add: get_transactions_try_def http_request_def example_world_def replies_simps
        example_no_created_def example_response_def raise_for_status_def
        sorted_transactions_def)
  have a: "fst (get_transactions ''acc_1'' ''token'' (example_world [])) = []"
    using get_transactions_swallows_errors [of "example_world []" "''acc_1''" "''token''"] 1
    by blast
  have b: "fst (get_transactions ''acc_1'' ''token''
            (example_world [Inr (example_listing 503 [example_txn_a])])) = []"
    using get_transactions_swallows_errors
      [of "example_world [Inr (example_listing 503 [example_txn_a])]" "''acc_1''" "''token''"] 2
    by blast
  have c: "fst (get_transactions ''acc_1'' ''token''
            (example_world [Inr example_no_content])) = []"
    using get_transactions_swallows_errors
      [of "example_world [Inr example_no_content]" "''acc_1''" "''token''"] 3
    by blast
  have d: "fst (get_transactions ''acc_1'' ''token''
            (example_world [Inr example_null_list])) = []"
    using get_transactions_swallows_errors
      [of "example_world [Inr example_null_list]" "''acc_1''" "''token''"] 4
    by blast
  have e: "fst (get_transactions ''acc_1'' ''token''
            (example_world [Inr example_no_created])) = []"
    using get_transactions_swallows_errors
      [of "example_world [Inr example_no_created]" "''acc_1''" "''token''"] 5
    by blast
  show ?thesis using a b c d e 5 by simp
qed

text \<open>
  The claim as stated (every status outside 200 to 299) fails: a response 300 with a
  list of transactions is not an error for \<open>raise_for_status\<close>, and the list is returned.
\<close>

theorem get_transactions_redirect_counterexample:
  "status_code (example_listing 300 [example_txn_a]) = 300
   \<and> fst (get_transactions ''acc_1'' ''token''
            (example_world [Inr (example_listing 300 [example_txn_a])])) = [example_txn_a]"
  by (simp add: get_transactions_def get_transactions_try_def http_request_def example_defs
      example_listing_def replies_simps raise_for_status_def sorted_transactions_def sorted_reverse_def)

lemma reraise_HTTPError: "reraise p (HTTPError m) = Exception (p @ m)"
  by (simp add: reraise_def)

subsection \<open>C3: a failed login\<close>

text \<open>
  Claim C3, amended. When the login request is answered with a status from 400 to 599,
  \<open>login\<close> raises an \<open>Exception\<close> whose message contains the status code in decimal;
  no cookie is stored, and exactly one request has been sent: the login is not retried.
\<close>

theorem login_error_status:
  assumes "net w (length (sent w)) = Inr resp"
    and "400 \<le> status_code resp" and "status_code resp < 600"
  shows "\<exists>msg. fst (login c w) = Inl (Exception msg)
           \<and> sublist (show_nat (status_code resp)) msg
           \<and> fst (snd (login c w)) = c
           \<and> sent (snd (snd (login c w)))
               = sent w @ [LoginRequest (monetr_url (config c) @ ''/api/authentication/login'')
                             (monetr_email (config c)) (monetr_password (config c))]"
proof -
  have "\<exists>m. raise_for_status resp = Inl (HTTPError (show_nat (status_code resp) @ m))"
  proof (cases "status_code resp < 500")
    case True
    then show ?thesis using assms(2) by (simp add: raise_for_status_def)
  next
    case False
    then show ?thesis using assms(3) by (simp add: raise_for_status_def)
  qed
  then obtain m where m: "raise_for_status resp = Inl (HTTPError (show_nat (status_code resp) @ m))"
    by blast
  have ne: "status_code resp \<noteq> 200" using assms(2) by simp
  have 1: "fst (login c w)
      = Inl (Exception (''Monetr login failed: '' @ show_nat (status_code resp) @ m))"
    using assms(1) m ne by (simp add: login_def http_request_def reraise_HTTPError)
  have 2: "fst (snd (login c w)) = c"
    using assms(1) m ne by (simp add: login_def http_request_def)
  have 3: "sublist (show_nat (status_code resp))
             (''Monetr login failed: '' @ show_nat (status_code resp) @ m)"
    unfolding sublist_def by blast
  show ?thesis using 1 2 3 login_sent [of c w] by blast
qed

theorem login_error_status_witness:
  "\<exists>msg. fst (login example_client (example_world [Inr example_unauthorized]))
            = Inl (Exception msg)
         \<and> sublist ''401'' msg
         \<and> length (sent (snd (snd (login example_client
                     (example_world [Inr example_unauthorized]))))) = 1"
proof -
  let ?w = "example_world [Inr example_unauthorized]"
  have h1: "net ?w (length (sent ?w)) = Inr example_unauthorized"
    by (simp add: example_world_def replies_simps)
  have h2: "400 \<le> status_code example_unauthorized"
    by (simp add: example_unauthorized_def example_response_def)
  have h3: "status_code example_unauthorized < 600"
    by (simp add: example_unauthorized_def example_response_def)
  have s: "show_nat (status_code example_unauthorized) = ''401''"
    by (simp add: example_unauthorized_def example_response_def show_nat.simps)
  have e: "sent ?w = []" by (simp add: example_world_def)
  from login_error_status [OF h1 h2 h3, of example_client]
  show ?thesis unfolding s e by auto
qed

text \<open>
  The claim as stated fails twice. A status other than 200 that \<open>raise_for_status\<close>
  does not raise for (here 204) lets \<open>login\<close> return normally. And the message of the
  exception is built from \<open>str(e)\<close>, which holds the status, the reason and the URL: the
  body of the response is not part of it.
\<close>

theorem login_non_200_counterexample:
  "status_code example_no_content = 204
   \<and> fst (login example_client (example_world [Inr example_no_content])) = Inr ()
   \<and> body_text example_unauthorized = ''invalid credentials''
   \<and> fst (login example_client (example_world [Inr example_unauthorized]))
       = Inl (Exception ''Monetr login failed: 401 Client Error: Unauthorized for url: http://localhost:4000/api/authentication/login'')
   \<and> \<not> sublist ''invalid credentials''
         ''Monetr login failed: 401 Client Error: Unauthorized for url: http://localhost:4000/api/authentication/login''"
proof -
  have a: "status_code example_no_content = 204"
    by (simp add: example_no_content_def example_response_def)
  have b: "fst (login example_client (example_world [Inr example_no_content])) = Inr ()"
    by (simp add: login_def http_request_def example_world_def replies_simps
        example_no_content_def example_response_def raise_for_status_def)
  have c: "body_text example_unauthorized = ''invalid credentials''"
    by (simp add: example_unauthorized_def example_response_def)
  have d: "fst (login example_client (example_world [Inr example_unauthorized]))
       = Inl (Exception ''Monetr login failed: 401 Client Error: Unauthorized for url: http://localhost:4000/api/authentication/login'')"
    by (simp add: login_def http_request_def example_world_def replies_simps
        example_unauthorized_def example_response_def raise_for_status_def reraise_HTTPError
        show_nat.simps)
  have e: "\<not> sublist ''invalid credentials''
         ''Monetr login failed: 401 Client Error: Unauthorized for url: http://localhost:4000/api/authentication/login''"
    by code_simp
  show ?thesis using a b c d e by blast
qed

subsection \<open>The invariant of the monitoring loop\<close>






















subsection \<open>C4: the seen-set and the post attempts\<close>




subsection \<open>Base64: decoding an encoding\<close>

lemma b64_value_char: "n < 64 \<Longrightarrow> b64_value (b64_char n) = Some n"
  by (auto simp: b64_value_def b64_char_def byte_in_def)

lemma b64_char_not_pad: "n < 64 \<Longrightarrow> b64_char n \<noteq> CHR ''=''"
proof
  assume n: "n < 64" and "b64_char n = CHR ''=''"
  then have "(of_char (b64_char n) :: nat) = 61" by simp
  then show False using n by (auto simp: b64_char_def split: if_splits)
qed

lemma b64_char_ascii: "n < 64 \<Longrightarrow> byte_in 0 127 (b64_char n)"
  by (auto simp: b64_char_def byte_in_def)

lemma a2b_base64_char:
  assumes "v < 64"
  shows "a2b_base64 q l p out (b64_char v # cs) =
     (if q = 0 then a2b_base64 1 v 0 out cs
      else if q = 1 then a2b_base64 2 (v mod 16) 0 (out @ [char_of (l * 4 + v div 16)]) cs
      else if q = 2 then a2b_base64 3 (v mod 4) 0 (out @ [char_of (l * 16 + v div 4)]) cs
      else a2b_base64 0 0 0 (out @ [char_of (l * 64 + v)]) cs)"
  using b64_value_char [OF assms] b64_char_not_pad [OF assms] by simp

lemma sextet_bounds:
  fixes x y :: nat
  assumes "x < 256" "y < 256"
  shows "x div 4 < 64" "x mod 64 < 64" "x mod 4 * 16 + y div 16 < 64"
    "x mod 16 * 4 + y div 64 < 64" "x mod 16 * 4 < 64" "x mod 4 * 16 < 64"
proof -
  have a: "x mod 4 * 16 \<le> 48" "x mod 16 * 4 \<le> 60"
    using mod_less_divisor [of 4 x] mod_less_divisor [of 16 x] by simp_all
  have b: "y div 16 < 16" "y div 64 < 4" using assms(2) by simp_all
  show "x div 4 < 64" "x mod 64 < 64" using assms(1) by simp_all
  show "x mod 4 * 16 + y div 16 < 64" "x mod 16 * 4 + y div 64 < 64"
    "x mod 16 * 4 < 64" "x mod 4 * 16 < 64"
    using a b by simp_all
qed

lemma sextet_join:
  fixes x y z :: nat
  assumes "y < 256" "z < 256"
  shows "x div 4 * 4 + (x mod 4 * 16 + y div 16) div 16 = x"
    "(x mod 4 * 16 + y div 16) mod 16 * 16 + (y mod 16 * 4 + z div 64) div 4 = y"
    "(y mod 16 * 4 + z div 64) mod 4 * 64 + z mod 64 = z"
    "(x mod 4 * 16 + y div 16) mod 16 * 16 + (y mod 16 * 4) div 4 = y"
    "x div 4 * 4 + (x mod 4 * 16) div 16 = x"
proof -
  have b: "y div 16 < 16" "z div 64 < 4" using assms by simp_all
  have 1: "(x mod 4 * 16 + y div 16) div 16 = x mod 4"
    "(x mod 4 * 16 + y div 16) mod 16 = y div 16"
    using b(1) by simp_all
  have 2: "(y mod 16 * 4 + z div 64) div 4 = y mod 16"
    "(y mod 16 * 4 + z div 64) mod 4 = z div 64"
    using b(2) by simp_all
  have 3: "y div 16 mod 16 = y div 16" "z div 64 mod 4 = z div 64"
    using b by simp_all
  show "x div 4 * 4 + (x mod 4 * 16 + y div 16) div 16 = x" by (simp only: 1 div_mult_mod_eq)
  show "(x mod 4 * 16 + y div 16) mod 16 * 16 + (y mod 16 * 4 + z div 64) div 4 = y"
    by (simp only: 1 2 div_mult_mod_eq)
  show "(y mod 16 * 4 + z div 64) mod 4 * 64 + z mod 64 = z" by (simp only: 2 div_mult_mod_eq)
  have 4: "(y mod 16 * 4) div 4 = y mod 16" "(x mod 4 * 16) div 16 = x mod 4" by simp_all
  show "(x mod 4 * 16 + y div 16) mod 16 * 16 + (y mod 16 * 4) div 4 = y"
    by (simp only: 1 4 div_mult_mod_eq)
  show "x div 4 * 4 + (x mod 4 * 16) div 16 = x" by (simp only: 4 div_mult_mod_eq)
qed

lemma a2b_base64_quad:
  assumes "v0 < 64" "v1 < 64" "v2 < 64" "v3 < 64"
  shows "a2b_base64 0 l p out (b64_char v0 # b64_char v1 # b64_char v2 # b64_char v3 # cs)
     = a2b_base64 0 0 0
         (out @ [char_of (v0 * 4 + v1 div 16), char_of (v1 mod 16 * 16 + v2 div 4),
                 char_of (v2 mod 4 * 64 + v3)]) cs"
  by (simp add: a2b_base64_char assms del: a2b_base64.simps)

lemma a2b_base64_triple:
  assumes "v0 < 64" "v1 < 64" "v2 < 64"
  shows "a2b_base64 0 l p out [b64_char v0, b64_char v1, b64_char v2, CHR ''='']
     = Inr (out @ [char_of (v0 * 4 + v1 div 16), char_of (v1 mod 16 * 16 + v2 div 4)])"
proof -
  have "a2b_base64 0 l p out [b64_char v0, b64_char v1, b64_char v2, CHR ''='']
      = a2b_base64 3 (v2 mod 4) 0
          (out @ [char_of (v0 * 4 + v1 div 16), char_of (v1 mod 16 * 16 + v2 div 4)])
          [CHR ''='']"
    by (simp add: a2b_base64_char assms del: a2b_base64.simps)
  then show ?thesis by simp
qed

lemma a2b_base64_double:
  assumes "v0 < 64" "v1 < 64"
  shows "a2b_base64 0 l p out [b64_char v0, b64_char v1, CHR ''='', CHR ''='']
     = Inr (out @ [char_of (v0 * 4 + v1 div 16)])"
proof -
  have "a2b_base64 0 l p out [b64_char v0, b64_char v1, CHR ''='', CHR ''='']
      = a2b_base64 2 (v1 mod 16) 0 (out @ [char_of (v0 * 4 + v1 div 16)])
          [CHR ''='', CHR ''='']"
    by (simp add: a2b_base64_char assms del: a2b_base64.simps)
  then show ?thesis by simp
qed

lemma a2b_base64_encode: "a2b_base64 0 0 0 out (b64encode bs) = Inr (out @ bs)"
proof (induction bs arbitrary: out rule: b64encode.induct)
  case (1 a b c bs)
  have r: "(of_char a :: nat) < 256" "(of_char b :: nat) < 256" "(of_char c :: nat) < 256"
    by simp_all
  note q = a2b_base64_quad [OF sextet_bounds(1) [OF r(1) r(2)] sextet_bounds(3) [OF r(1) r(2)]
      sextet_bounds(4) [OF r(2) r(3)] sextet_bounds(2) [OF r(3) r(3)], of 0 0 out "b64encode bs"]
  have "a2b_base64 0 0 0 out (b64encode (a # b # c # bs))
      = a2b_base64 0 0 0 (out @ [a, b, c]) (b64encode bs)"
    unfolding b64encode.simps append_Cons append_Nil q
    by (simp only: sextet_join [OF r(2) r(3)] char_of_char)
  then show ?case using "1.IH" [of "out @ [a, b, c]"] by simp
next
  case (2 a b)
  have r: "(of_char a :: nat) < 256" "(of_char b :: nat) < 256" by simp_all
  note q = a2b_base64_triple [OF sextet_bounds(1) [OF r(1) r(2)] sextet_bounds(3) [OF r(1) r(2)]
      sextet_bounds(5) [OF r(2) r(2)], of 0 0 out]
  show ?case
    unfolding b64encode.simps q
    by (simp only: sextet_join [OF r(2) r(2)] char_of_char)
next
  case (3 a)
  have r: "(of_char a :: nat) < 256" by simp
  note q = a2b_base64_double [OF sextet_bounds(1) [OF r r] sextet_bounds(6) [OF r r],
      of 0 0 out]
  show ?case
    unfolding b64encode.simps q
    by (simp only: sextet_join [OF r r] char_of_char)
next
  case 4
  then show ?case by simp
qed

lemma pad_ascii: "byte_in 0 127 CHR ''=''"
  by (simp add: byte_in_def)

lemma b64encode_ascii: "list_all (byte_in 0 127) (b64encode bs)"
proof (induction bs rule: b64encode.induct)
  case (1 a b c bs)
  have r: "(of_char a :: nat) < 256" "(of_char b :: nat) < 256" "(of_char c :: nat) < 256"
    by simp_all
  note s = sextet_bounds [OF r(1) r(2)] sextet_bounds [OF r(2) r(3)] sextet_bounds [OF r(3) r(3)]
  show ?case using "1.IH" by (simp add: b64_char_ascii s)
next
  case (2 a b)
  have r: "(of_char a :: nat) < 256" "(of_char b :: nat) < 256" by simp_all
  note s = sextet_bounds [OF r(1) r(2)] sextet_bounds [OF r(2) r(2)]
  show ?case by (simp add: b64_char_ascii s pad_ascii)
next
  case (3 a)
  have r: "(of_char a :: nat) < 256" by simp
  note s = sextet_bounds [OF r r]
  show ?case by (simp add: b64_char_ascii s pad_ascii)
next
  case 4
  then show ?case by simp
qed

lemma b64decode_b64encode: "b64decode (b64encode bs) = Inr bs"
  using a2b_base64_encode [of "[]" bs] by (simp add: b64decode_def b64encode_ascii)

lemma b64encode_not_empty: "bs \<noteq> [] \<Longrightarrow> b64encode bs \<noteq> []"
  by (induction bs rule: b64encode.induct) simp_all

subsection \<open>C8: saving and loading a configuration\<close>

lemma decrypt_encrypt:
  assumes "json_loads lib (json_dumps lib cfg) = Inr cfg" and "utf8_valid (json_dumps lib cfg)"
  shows "decrypt_config lib (encrypt_config lib cfg) = cfg"
  using assms
  by (simp add: decrypt_config_def encrypt_config_def b64decode_b64encode utf8_decode_def)

text \<open>
  Claim C8. The hypotheses are the contract of the \<open>json\<close> module for the blob
  \<open>cfg\<close>: \<open>json.loads\<close> gives back what \<open>json.dumps\<close> printed, and what it printed is
  a non-empty \<open>str\<close>. Then, for both services, loading after saving returns exactly
  the saved blob. And without any hypothesis: when nothing is stored, or when what is
  stored is not decodable (not Base64, not UTF-8 or not JSON), loading returns
  \<open>None\<close>; it cannot raise, since the result of the two loading functions is a value
  in every case.
\<close>

theorem config_roundtrip:
  assumes "json_loads lib (json_dumps lib cfg) = Inr cfg"
    and "json_dumps lib cfg \<noteq> []"
    and "utf8_valid (json_dumps lib cfg)"
  shows "load_monzo_config lib (save_monzo_config lib cfg w) = cfg
     \<and> load_monetr_config lib (save_monetr_config lib cfg w) = cfg
     \<and> (get_password MONZO_SERVICE ''config'' w' = None \<longrightarrow> load_monzo_config lib w' = PNone)
     \<and> (get_password MONETR_SERVICE ''config'' w' = None \<longrightarrow> load_monetr_config lib w' = PNone)
     \<and> (\<forall>enc. (get_password MONZO_SERVICE ''config'' w' = Some enc
                 \<or> get_password MONETR_SERVICE ''config'' w' = Some enc)
               \<and> ((\<exists>e. b64decode enc = Inl e)
                    \<or> (\<exists>bs. b64decode enc = Inr bs
                          \<and> (\<not> utf8_valid bs \<or> (\<exists>e. json_loads lib bs = Inl e))))
            \<longrightarrow> decrypt_config lib enc = PNone
                \<and> (get_password MONZO_SERVICE ''config'' w' = Some enc
                      \<longrightarrow> load_monzo_config lib w' = PNone)
                \<and> (get_password MONETR_SERVICE ''config'' w' = Some enc
                      \<longrightarrow> load_monetr_config lib w' = PNone))"
proof -
  have ne: "encrypt_config lib cfg \<noteq> []"
    using assms(2) by (simp add: encrypt_config_def b64encode_not_empty)
  have d: "decrypt_config lib (encrypt_config lib cfg) = cfg"
    using assms(1,3) by (rule decrypt_encrypt)
  have 1: "load_monzo_config lib (save_monzo_config lib cfg w) = cfg"
    using ne d
    by (simp add: load_monzo_config_def save_monzo_config_def get_password_def set_password_def)
  have 2: "load_monetr_config lib (save_monetr_config lib cfg w) = cfg"
    using ne d
    by (simp add: load_monetr_config_def save_monetr_config_def get_password_def
        set_password_def)
  have 3: "get_password MONZO_SERVICE ''config'' w' = None \<longrightarrow> load_monzo_config lib w' = PNone"
    by (simp add: load_monzo_config_def)
  have 4: "get_password MONETR_SERVICE ''config'' w' = None
      \<longrightarrow> load_monetr_config lib w' = PNone"
    by (simp add: load_monetr_config_def)
  have 5: "decrypt_config lib enc = PNone"
    if "(\<exists>e. b64decode enc = Inl e)
         \<or> (\<exists>bs. b64decode enc = Inr bs
               \<and> (\<not> utf8_valid bs \<or> (\<exists>e. json_loads lib bs = Inl e)))" for enc
    using that by (auto simp: decrypt_config_def utf8_decode_def)
  have 6: "load_monzo_config lib w' = PNone"
    if "get_password MONZO_SERVICE ''config'' w' = Some enc" "decrypt_config lib enc = PNone"
    for enc
    using that by (simp add: load_monzo_config_def)
  have 7: "load_monetr_config lib w' = PNone"
    if "get_password MONETR_SERVICE ''config'' w' = Some enc" "decrypt_config lib enc = PNone"
    for enc
    using that by (simp add: load_monetr_config_def)
  show ?thesis using 1 2 3 4 5 6 7 by blast
qed

lemma example_utf8: "utf8_valid example_config_text" "utf8_valid example_tokens_text"
  by code_simp+

lemma example_b64:
  "b64encode example_config_text = example_config_b64"
  "b64encode example_tokens_text = example_tokens_b64"
  by code_simp+

lemma example_texts_differ: "example_config_text \<noteq> example_tokens_text"
  by code_simp

lemma example_json_simps:
  "json_dumps example_json example_config = example_config_text"
  "json_dumps example_json example_config_tokens = example_tokens_text"
  "json_loads example_json example_config_text = Inr example_config"
  "json_loads example_json example_tokens_text = Inr example_config_tokens"
  using example_texts_differ
  by (auto simp: example_json_def example_dumps_def example_loads_def
      example_config_def example_config_tokens_def)

theorem config_roundtrip_witness:
  "load_monzo_config example_json (save_monzo_config example_json example_config (example_world []))
     = example_config
   \<and> get_password MONZO_SERVICE ''config''
        (save_monzo_config example_json example_config (example_world []))
       = Some example_config_b64
   \<and> load_monzo_config example_json (example_world []) = PNone
   \<and> load_monzo_config example_json
        (set_password MONZO_SERVICE ''config'' ''AAA'' (example_world [])) = PNone"
proof -
  have h1: "json_loads example_json (json_dumps example_json example_config) = Inr example_config"
    by (simp add: example_json_simps)
  have h2: "json_dumps example_json example_config \<noteq> []"
    by (simp add: example_json_simps example_config_text_def)
  have h3: "utf8_valid (json_dumps example_json example_config)"
    by (simp add: example_json_simps example_utf8)
  note r = config_roundtrip [OF h1 h2 h3]
  have a: "load_monzo_config example_json
      (save_monzo_config example_json example_config (example_world [])) = example_config"
    using r by blast
  have b: "get_password MONZO_SERVICE ''config''
        (save_monzo_config example_json example_config (example_world []))
       = Some example_config_b64"
    by (simp add: save_monzo_config_def get_password_def set_password_def encrypt_config_def
        example_json_simps example_b64)
  have c: "load_monzo_config example_json (example_world []) = PNone"
    using r [of _ "example_world []"]
    by (simp add: get_password_def example_world_def)
  have bad: "b64decode ''AAA'' = Inl BinasciiError" by code_simp
  have g: "get_password MONZO_SERVICE ''config''
      (set_password MONZO_SERVICE ''config'' ''AAA'' (example_world [])) = Some ''AAA''"
    by (simp add: get_password_def set_password_def)
  have d: "load_monzo_config example_json
        (set_password MONZO_SERVICE ''config'' ''AAA'' (example_world [])) = PNone"
    using r [of _ "set_password MONZO_SERVICE ''config'' ''AAA'' (example_world [])"] g bad
    by blast
  show ?thesis using a b c d by blast
qed

subsection \<open>C7: the authorization code is used once\<close>

lemma clear_auth_code_result:
  "clear_auth_code w =
     (Inr (), w\<lparr>keyring := (keyring w)((MONZO_SERVICE, ''auth_code'') := None)\<rparr>)"
proof (cases "keyring w (MONZO_SERVICE, ''auth_code'')")
  case None
  then have "(keyring w)((MONZO_SERVICE, ''auth_code'') := None) = keyring w" by auto
  then show ?thesis using None by (simp add: clear_auth_code_def delete_password_def)
next
  case (Some a)
  then show ?thesis by (simp add: clear_auth_code_def delete_password_def)
qed

lemma exchange_auth_code_cleared:
  assumes "exchange_auth_code lib code cid secret w = (Inr tok, w')"
  shows "keyring w' (MONZO_SERVICE, ''auth_code'') = None"
  using assms
  by (auto simp: exchange_auth_code_def clear_auth_code_result
      split: if_splits sum.splits prod.splits json_doc.splits option.splits)

text \<open>
  Claim C7. When \<open>exchange_auth_code\<close> returns (the access token), no authorization
  code is left in the keyring. \<open>clear_auth_code\<close> never raises and leaves no code; when
  there is no code to delete it changes nothing, so clearing twice is clearing once.
\<close>

theorem exchange_clears_auth_code:
  "(exchange_auth_code lib code cid secret w = (Inr tok, w')
      \<longrightarrow> get_auth_code w' = None)
   \<and> fst (clear_auth_code w2) = Inr ()
   \<and> get_auth_code (snd (clear_auth_code w2)) = None
   \<and> (get_auth_code w2 = None \<longrightarrow> clear_auth_code w2 = (Inr (), w2))"
proof -
  have 1: "exchange_auth_code lib code cid secret w = (Inr tok, w') \<longrightarrow> get_auth_code w' = None"
    using exchange_auth_code_cleared [of lib code cid secret w tok w']
    by (simp add: get_auth_code_def get_password_def)
  have 2: "fst (clear_auth_code w2) = Inr ()" by (simp add: clear_auth_code_result)
  have 3: "get_auth_code (snd (clear_auth_code w2)) = None"
    by (simp add: clear_auth_code_result get_auth_code_def get_password_def)
  have 4: "get_auth_code w2 = None \<longrightarrow> clear_auth_code w2 = (Inr (), w2)"
    by (simp add: clear_auth_code_def delete_password_def get_auth_code_def get_password_def)
  show ?thesis using 1 2 3 4 by blast
qed

lemma example_b64_decode:
  "b64decode example_config_b64 = Inr example_config_text"
  "b64decode example_tokens_b64 = Inr example_tokens_text"
  using b64decode_b64encode [of example_config_text] b64decode_b64encode [of example_tokens_text]
  by (simp_all add: example_b64)

lemma example_b64_not_empty: "example_config_b64 \<noteq> []" "example_tokens_b64 \<noteq> []"
  by (simp_all add: example_config_b64_def example_tokens_b64_def)

lemma services_differ: "MONZO_SERVICE \<noteq> MONETR_SERVICE"
  by (simp add: MONZO_SERVICE_def MONETR_SERVICE_def)

lemma example_exchange:
  "fst (exchange_auth_code example_json ''code123'' ''abc'' ''s3'' example_authorized) = Inr ''at1''"
  "get_password MONZO_SERVICE ''config''
     (snd (exchange_auth_code example_json ''code123'' ''abc'' ''s3'' example_authorized))
   = Some example_tokens_b64"
  by (simp_all add: exchange_auth_code_def example_authorized_def load_monzo_config_def
      get_password_def set_password_def decrypt_config_def example_b64_decode
      example_b64_not_empty utf8_decode_def example_utf8 example_json_simps
      http_request_def example_world_def replies_simps example_token_response_def
      example_response_def no_keys_def raise_for_status_def expiry_overflows_def
      save_tokens_def save_monzo_config_def encrypt_config_def example_b64
      clear_auth_code_result example_config_def example_config_tokens_def [symmetric])

theorem exchange_clears_auth_code_witness:
  "get_auth_code example_authorized = Some ''code123''
   \<and> fst (exchange_auth_code example_json ''code123'' ''abc'' ''s3'' example_authorized)
       = Inr ''at1''
   \<and> get_auth_code
        (snd (exchange_auth_code example_json ''code123'' ''abc'' ''s3'' example_authorized))
       = None
   \<and> clear_auth_code (example_world []) = (Inr (), example_world [])"
proof -
  obtain w' where e: "exchange_auth_code example_json ''code123'' ''abc'' ''s3'' example_authorized
      = (Inr ''at1'', w')"
    using example_exchange(1)
    by (cases "exchange_auth_code example_json ''code123'' ''abc'' ''s3'' example_authorized") auto
  note r = exchange_clears_auth_code [of example_json "''code123''" "''abc''" "''s3''"
      example_authorized "''at1''" w' "example_world []"]
  have a: "get_auth_code example_authorized = Some ''code123''"
    by (simp add: get_auth_code_def get_password_def example_authorized_def set_password_def)
  have b: "get_auth_code w' = None" using r e by blast
  have c: "get_auth_code (example_world []) = None"
    by (simp add: get_auth_code_def get_password_def example_world_def)
  have d: "clear_auth_code (example_world []) = (Inr (), example_world [])"
    using r c by blast
  show ?thesis using a b d e example_exchange(1) by simp
qed

end
